theory Spec2Isabelle
  imports Main "HOL-Library.Sublist" "HOL-Library.Multiset"
begin

section \<open>Bulk participant scripts: add-participants-to-group.js, remove-inactive-from-group.js\<close>

text \<open>
  Both scripts drive the chat client through a strictly sequential \<^verbatim>\<open>async\<close> function.
  The embedding threads one state record through every \<^verbatim>\<open>await\<close>: the state of the
  external session (an abstract world \<open>'w\<close>), the trace of client calls and timer waits
  made so far, the \<^verbatim>\<open>results\<close> array, the counters and the JSON file written at the end.
  A rejected promise is a value \<open>Inl msg\<close>, where \<open>msg\<close> is the \<^verbatim>\<open>error.message\<close> the
  scripts record; a resolved one is \<open>Inr v\<close>. Console output, the wall-clock timestamp
  and the file name are left out. Every client call is taken to settle (resolve or reject)
  and the final \<^verbatim>\<open>fs.writeFileSync\<close> to succeed.
\<close>

subsection \<open>Data of the client library\<close>

record participant =
  user :: string
  serialized :: string
  isAdmin :: bool

record chat =
  chat_id :: string
  isGroup :: bool
  name :: string
  participants :: "participant list"

text \<open>
  The client object. \<open>info_wid\<close> is \<^verbatim>\<open>client.info.wid._serialized\<close>; the group methods
  (\<^verbatim>\<open>targetGroup.addParticipants\<close>, \<^verbatim>\<open>removeParticipants\<close>, \<^verbatim>\<open>getInviteCode\<close>) take the
  group id first. \<open>'r\<close> is whatever the mutation calls resolve to.
\<close>

record ('w, 'r) client =
  info_wid :: string
  getChats :: "'w \<Rightarrow> (string + chat list) \<times> 'w"
  getChatById :: "string \<Rightarrow> 'w \<Rightarrow> (string + chat) \<times> 'w"
  getInviteCode :: "string \<Rightarrow> 'w \<Rightarrow> (string + string) \<times> 'w"
  addParticipants :: "string \<Rightarrow> string list \<Rightarrow> 'w \<Rightarrow> (string + 'r) \<times> 'w"
  removeParticipants :: "string \<Rightarrow> string list \<Rightarrow> 'w \<Rightarrow> (string + 'r) \<times> 'w"
  sendMessage :: "string \<Rightarrow> string \<Rightarrow> 'w \<Rightarrow> (string + unit) \<times> 'w"
  destroy :: "'w \<Rightarrow> 'w"

subsection \<open>Timing configuration\<close>

datatype delay_key =
    VERIFICATION
  | PRE_INVITE
  | BETWEEN_ADDS
  | PRE_NOTIFICATION
  | BETWEEN_REMOVALS
  | AFTER_FAILURE

text \<open>Milliseconds, as in the two \<^verbatim>\<open>DELAYS\<close> objects (they agree on the shared keys).\<close>

fun DELAYS :: "delay_key \<Rightarrow> nat" where
  "DELAYS VERIFICATION = 1000"
| "DELAYS PRE_INVITE = 500"
| "DELAYS BETWEEN_ADDS = 2000"
| "DELAYS PRE_NOTIFICATION = 500"
| "DELAYS BETWEEN_REMOVALS = 2000"
| "DELAYS AFTER_FAILURE = 1000"

definition TARGET_GROUP_ID_add :: string where
  "TARGET_GROUP_ID_add = ''120363401616166216'' @ ''@g.us''"

definition TARGET_GROUP_ID_remove :: string where
  "TARGET_GROUP_ID_remove = ''120363415434456792'' @ ''@g.us''"

subsection \<open>Run state\<close>

datatype event =
    GetChats
  | GetChatById string
  | GetInviteCode string
  | AddParticipants string "string list"
  | RemoveParticipants string "string list"
  | SendMessage string string
  | Delay delay_key
  | Destroy
  | Exit int

text \<open>The time spent in timer waits along a trace, in milliseconds.\<close>

fun waited :: "event list \<Rightarrow> nat" where
  "waited [] = 0"
| "waited (Delay k # es) = DELAYS k + waited es"
| "waited (e # es) = waited es"

text \<open>
  One entry of \<^verbatim>\<open>results\<close>. The scripts push object literals with different key sets; a
  key that a literal does not have is \<open>None\<close>. The key \<^verbatim>\<open>method\<close> is the field \<open>method_used\<close>.
\<close>

record outcome =
  number :: string
  status :: string
  method_used :: "string option"
  inviteLink :: "string option"
  error :: "string option"
  notificationSent :: "bool option"
  msgError :: "string option"

definition entry :: "string \<Rightarrow> string \<Rightarrow> outcome" where
  "entry phoneNumber st =
     \<lparr>number = phoneNumber, status = st, method_used = None, inviteLink = None, error = None,
      notificationSent = None, msgError = None\<rparr>"

record add_report =
  add_groupName :: string
  add_totalToProcess :: nat
  add_successCount :: nat
  add_inviteCount :: nat
  add_skipCount :: nat
  add_failCount :: nat
  add_results :: "outcome list"
  add_alreadyInGroup :: "string list"

record removal_report =
  removal_groupName :: string
  removal_totalToProcess :: nat
  removal_successCount :: nat
  removal_failCount :: nat
  removal_alreadyRemovedCount :: nat
  removal_notificationsSent :: nat
  removal_results :: "outcome list"
  removal_notInGroup :: "string list"

datatype results_file = AddResults add_report | RemovalResults removal_report

text \<open>
  The removal script declares only \<^verbatim>\<open>successCount\<close> and \<^verbatim>\<open>failCount\<close>; there the other
  two counters stay 0.
\<close>

record 'w run_state =
  world :: 'w
  events :: "event list"
  results :: "outcome list"
  successCount :: nat
  inviteCount :: nat
  failCount :: nat
  skipCount :: nat
  written :: "results_file option"

definition init_state :: "'w \<Rightarrow> 'w run_state" where
  "init_state w =
     \<lparr>world = w, events = [], results = [], successCount = 0, inviteCount = 0,
      failCount = 0, skipCount = 0, written = None\<rparr>"

datatype run_status = SetupError string | GroupNotFound | NotAdmin | NothingToDo | Completed

definition await :: "event \<Rightarrow> ('w \<Rightarrow> 'a \<times> 'w) \<Rightarrow> 'w run_state \<Rightarrow> 'a \<times> 'w run_state" where
  "await ev f s =
     (case f (world s) of (r, w) \<Rightarrow> (r, s\<lparr>world := w, events := events s @ [ev]\<rparr>))"

text \<open>\<^verbatim>\<open>await new Promise(resolve => setTimeout(resolve, DELAYS.KEY))\<close>\<close>

definition sleep :: "delay_key \<Rightarrow> 'w run_state \<Rightarrow> 'w run_state" where
  "sleep k s = s\<lparr>events := events s @ [Delay k]\<rparr>"

definition push :: "outcome \<Rightarrow> 'w run_state \<Rightarrow> 'w run_state" where
  "push r s = s\<lparr>results := results s @ [r]\<rparr>"

text \<open>
  \<^verbatim>\<open>if (i < list.length - 1) await delay\<close>. Inside the loop the list is not empty, so the
  subtraction on \<open>nat\<close> agrees with the one of the script.
\<close>

definition pace :: "delay_key \<Rightarrow> nat \<Rightarrow> nat \<Rightarrow> 'w run_state \<Rightarrow> 'w run_state" where
  "pace k i n s = (if i < n - 1 then sleep k s else s)"

subsection \<open>String helpers\<close>

text \<open>
  \<^verbatim>\<open>str.replace(pattern, replacement)\<close> with a string pattern: the first occurrence only.
  The \<^verbatim>\<open>$\<close> patterns of the replacement are not interpreted (the scripts replace by the
  empty string and by an invite link).
\<close>

fun js_replace :: "string \<Rightarrow> string \<Rightarrow> string \<Rightarrow> string" where
  "js_replace [] pat rep = (if pat = [] then rep else [])"
| "js_replace (c # cs) pat rep =
     (if prefix pat (c # cs) then rep @ drop (length pat) (c # cs)
      else c # js_replace cs pat rep)"

definition participantId_of :: "string \<Rightarrow> string" where
  "participantId_of phoneNumber = js_replace phoneNumber ''+'' '''' @ ''@c.us''"

definition in_group :: "string \<Rightarrow> chat \<Rightarrow> bool" where
  "in_group participantId g = list_ex (\<lambda>p. serialized p = participantId) (participants g)"

definition currentParticipants :: "chat \<Rightarrow> string list" where
  "currentParticipants g = map (\<lambda>p. ''+'' @ user p) (participants g)"

definition is_admin :: "string \<Rightarrow> chat \<Rightarrow> bool" where
  "is_admin myId g =
     (case find (\<lambda>p. serialized p = myId) (participants g) of
        None \<Rightarrow> False
      | Some myParticipant \<Rightarrow> isAdmin myParticipant)"

definition find_group :: "string \<Rightarrow> chat list \<Rightarrow> chat option" where
  "find_group gid chats = find (\<lambda>group. chat_id group = gid) (filter isGroup chats)"

subsection \<open>add-participants-to-group.js\<close>

text \<open>The outer \<^verbatim>\<open>catch (error)\<close> of the loop body (lines 325-334).\<close>

definition add_catch :: "nat \<Rightarrow> nat \<Rightarrow> string \<Rightarrow> string \<Rightarrow> 'w run_state \<Rightarrow> 'w run_state" where
  "add_catch i n phoneNumber msg s =
     pace AFTER_FAILURE i n
       (push ((entry phoneNumber ''failed'')\<lparr>method_used := Some ''error'', error := Some msg\<rparr>)
          (s\<lparr>failCount := failCount s + 1\<rparr>))"

text \<open>The inner \<^verbatim>\<open>try\<close> (lines 279-294): direct add, verification wait, re-query.\<close>

definition direct_add ::
  "('w, 'r) client \<Rightarrow> string \<Rightarrow> string \<Rightarrow> string \<Rightarrow> 'w run_state \<Rightarrow> (string + unit) \<times> 'w run_state" where
  "direct_add cl gid phoneNumber participantId s =
     (case await (AddParticipants gid [participantId]) (addParticipants cl gid [participantId]) s of
        (Inl e, s1) \<Rightarrow> (Inl e, s1)
      | (Inr r, s1) \<Rightarrow>
          (case await (GetChatById gid) (getChatById cl gid) (sleep VERIFICATION s1) of
             (Inl e, s2) \<Rightarrow> (Inl e, s2)
           | (Inr verifyGroup, s2) \<Rightarrow>
               if in_group participantId verifyGroup
               then (Inr (),
                     (push ((entry phoneNumber ''added'')\<lparr>method_used := Some ''direct''\<rparr>) s2)
                       \<lparr>successCount := successCount s2 + 1\<rparr>)
               else (Inl ''Participant not found in group after add attempt'', s2)))"

text \<open>
  The inner \<^verbatim>\<open>catch (addError)\<close> (lines 296-317). \<^verbatim>\<open>if (groupInviteCode)\<close> is false for
  \<^verbatim>\<open>null\<close> (the invite code could not be fetched) and for the empty string. A rejected
  \<^verbatim>\<open>sendMessage\<close> leaves this block as an exception (\<open>Inl\<close>) and reaches the outer catch.
\<close>

fun truthy :: "string option \<Rightarrow> bool" where
  "truthy None = False"
| "truthy (Some code) = (code \<noteq> [])"

definition inviteLink_of :: "string option \<Rightarrow> string" where
  "inviteLink_of groupInviteCode = ''https://chat.whatsapp.com/'' @ the groupInviteCode"

definition inviteMessage_of :: "string \<Rightarrow> string \<Rightarrow> string" where
  "inviteMessage_of INVITE_MESSAGE link = js_replace INVITE_MESSAGE ''[GROUP_INVITE_LINK]'' link"

definition invite_fallback ::
  "('w, 'r) client \<Rightarrow> string option \<Rightarrow> string \<Rightarrow> string \<Rightarrow> string \<Rightarrow> string \<Rightarrow> 'w run_state
     \<Rightarrow> (string + unit) \<times> 'w run_state" where
  "invite_fallback cl groupInviteCode INVITE_MESSAGE phoneNumber participantId addError s =
     (if truthy groupInviteCode
      then
        (let link = inviteLink_of groupInviteCode;
             inviteMessage = inviteMessage_of INVITE_MESSAGE link
         in case await (SendMessage participantId inviteMessage)
                   (sendMessage cl participantId inviteMessage) (sleep PRE_INVITE s) of
              (Inl e, s1) \<Rightarrow> (Inl e, s1)
            | (Inr u, s1) \<Rightarrow>
                (Inr (),
                 (push ((entry phoneNumber ''invited'')
                          \<lparr>method_used := Some ''invite_link'', inviteLink := Some link\<rparr>) s1)
                   \<lparr>inviteCount := inviteCount s1 + 1\<rparr>))
      else (Inr (),
            push ((entry phoneNumber ''failed'')\<lparr>method_used := Some ''none'', error := Some addError\<rparr>)
              (s\<lparr>failCount := failCount s + 1\<rparr>)))"

text \<open>One pass of the \<^verbatim>\<open>for\<close> body (lines 258-334).\<close>

definition add_iteration ::
  "('w, 'r) client \<Rightarrow> string \<Rightarrow> string option \<Rightarrow> string \<Rightarrow> nat \<Rightarrow> nat \<Rightarrow> string \<Rightarrow> 'w run_state
     \<Rightarrow> 'w run_state" where
  "add_iteration cl gid groupInviteCode INVITE_MESSAGE n i phoneNumber s =
     (let participantId = participantId_of phoneNumber
      in case await (GetChatById gid) (getChatById cl gid) s of
           (Inl e, s1) \<Rightarrow> add_catch i n phoneNumber e s1
         | (Inr updatedGroup, s1) \<Rightarrow>
             if in_group participantId updatedGroup
             then (push ((entry phoneNumber ''already_in_group'')\<lparr>method_used := Some ''skipped''\<rparr>) s1)
                    \<lparr>skipCount := skipCount s1 + 1\<rparr>
             else
               (case direct_add cl gid phoneNumber participantId s1 of
                  (Inr u, s2) \<Rightarrow> pace BETWEEN_ADDS i n s2
                | (Inl addError, s2) \<Rightarrow>
                    (case invite_fallback cl groupInviteCode INVITE_MESSAGE phoneNumber
                            participantId addError s2 of
                       (Inr u, s3) \<Rightarrow> pace BETWEEN_ADDS i n s3
                     | (Inl e, s3) \<Rightarrow> add_catch i n phoneNumber e s3)))"

fun add_loop ::
  "('w, 'r) client \<Rightarrow> string \<Rightarrow> string option \<Rightarrow> string \<Rightarrow> nat \<Rightarrow> nat \<Rightarrow> string list \<Rightarrow> 'w run_state
     \<Rightarrow> 'w run_state" where
  "add_loop cl gid code msg n i [] s = s"
| "add_loop cl gid code msg n i (phoneNumber # rest) s =
     add_loop cl gid code msg n (i + 1) rest (add_iteration cl gid code msg n i phoneNumber s)"

text \<open>
  Lines 174-248: find the group, check admin rights, filter the input, fetch the invite
  code. \<open>Inl\<close> is an early \<^verbatim>\<open>return\<close> (or the function-level catch, for a rejected
  \<^verbatim>\<open>getChats\<close>); \<open>Inr\<close> carries \<^verbatim>\<open>targetGroup\<close>, \<^verbatim>\<open>participantsToAdd\<close>, \<^verbatim>\<open>alreadyInGroup\<close>
  and \<^verbatim>\<open>groupInviteCode\<close> into the loop.
\<close>

definition add_prepare ::
  "('w, 'r) client \<Rightarrow> string list \<Rightarrow> 'w run_state
     \<Rightarrow> (run_status + chat \<times> string list \<times> string list \<times> string option) \<times> 'w run_state" where
  "add_prepare cl participants_to_add s =
     (case await GetChats (getChats cl) s of
        (Inl e, s1) \<Rightarrow> (Inl (SetupError e), s1)
      | (Inr chats, s1) \<Rightarrow>
          (case find_group TARGET_GROUP_ID_add chats of
             None \<Rightarrow> (Inl GroupNotFound, s1)
           | Some targetGroup \<Rightarrow>
               if is_admin (info_wid cl) targetGroup then
                 (let participantsToAdd =
                        filter (\<lambda>phoneNumber. phoneNumber \<notin> set (currentParticipants targetGroup))
                          participants_to_add;
                      alreadyInGroup =
                        filter (\<lambda>phoneNumber. phoneNumber \<in> set (currentParticipants targetGroup))
                          participants_to_add
                  in if participantsToAdd = [] then (Inl NothingToDo, s1)
                     else
                       (case await (GetInviteCode (chat_id targetGroup))
                               (getInviteCode cl (chat_id targetGroup)) s1 of
                          (Inl e, s2) \<Rightarrow>
                            (Inr (targetGroup, participantsToAdd, alreadyInGroup, None), s2)
                        | (Inr code, s2) \<Rightarrow>
                            (Inr (targetGroup, participantsToAdd, alreadyInGroup, Some code), s2)))
               else (Inl NotAdmin, s1)))"

text \<open>\<^verbatim>\<open>fs.writeFileSync(resultsFile, JSON.stringify({...}))\<close> (lines 350-363).\<close>

definition add_save :: "chat \<Rightarrow> string list \<Rightarrow> string list \<Rightarrow> 'w run_state \<Rightarrow> 'w run_state" where
  "add_save targetGroup participantsToAdd alreadyInGroup s =
     s\<lparr>written := Some (AddResults
          \<lparr>add_groupName = name targetGroup,
           add_totalToProcess = length participantsToAdd,
           add_successCount = successCount s,
           add_inviteCount = inviteCount s,
           add_skipCount = skipCount s,
           add_failCount = failCount s,
           add_results = results s,
           add_alreadyInGroup = alreadyInGroup\<rparr>)\<rparr>"

definition addParticipantsToGroup ::
  "('w, 'r) client \<Rightarrow> string \<Rightarrow> string list \<Rightarrow> 'w \<Rightarrow> run_status \<times> 'w run_state" where
  "addParticipantsToGroup cl INVITE_MESSAGE participants_to_add w =
     (case add_prepare cl participants_to_add (init_state w) of
        (Inl early, s1) \<Rightarrow> (early, s1)
      | (Inr (targetGroup, participantsToAdd, alreadyInGroup, groupInviteCode), s1) \<Rightarrow>
          (Completed,
           add_save targetGroup participantsToAdd alreadyInGroup
             (add_loop cl (chat_id targetGroup) groupInviteCode INVITE_MESSAGE
                (length participantsToAdd) 0 participantsToAdd s1)))"

subsection \<open>remove-inactive-from-group.js\<close>

text \<open>The \<^verbatim>\<open>catch (error)\<close> of the loop body (lines 300-309).\<close>

definition remove_catch :: "nat \<Rightarrow> nat \<Rightarrow> string \<Rightarrow> string \<Rightarrow> 'w run_state \<Rightarrow> 'w run_state" where
  "remove_catch i n phoneNumber msg s =
     pace AFTER_FAILURE i n
       (push ((entry phoneNumber ''failed'')\<lparr>error := Some msg\<rparr>)
          (s\<lparr>failCount := failCount s + 1\<rparr>))"

text \<open>
  One pass of the \<^verbatim>\<open>for\<close> body (lines 246-309). The pre-check reads the participants of
  \<^verbatim>\<open>targetGroup\<close>, the object obtained from \<^verbatim>\<open>getChats\<close> before the loop.
\<close>

definition remove_iteration ::
  "('w, 'r) client \<Rightarrow> chat \<Rightarrow> string \<Rightarrow> nat \<Rightarrow> nat \<Rightarrow> string \<Rightarrow> 'w run_state \<Rightarrow> 'w run_state" where
  "remove_iteration cl targetGroup REMOVAL_MESSAGE n i phoneNumber s =
     (let participantId = participantId_of phoneNumber; gid = chat_id targetGroup
      in case find (\<lambda>p. serialized p = participantId) (participants targetGroup) of
           None \<Rightarrow>
             push ((entry phoneNumber ''already_removed'')\<lparr>notificationSent := Some False\<rparr>) s
         | Some currentParticipant \<Rightarrow>
             (case await (RemoveParticipants gid [participantId])
                     (removeParticipants cl gid [participantId]) s of
                (Inl e, s1) \<Rightarrow> remove_catch i n phoneNumber e s1
              | (Inr removalResult, s1) \<Rightarrow>
                  (case await (GetChatById gid) (getChatById cl gid) (sleep VERIFICATION s1) of
                     (Inl e, s2) \<Rightarrow> remove_catch i n phoneNumber e s2
                   | (Inr updatedGroup, s2) \<Rightarrow>
                       if in_group participantId updatedGroup
                       then remove_catch i n phoneNumber
                              ''Participant still in group after removal attempt'' s2
                       else
                         (case await (SendMessage participantId REMOVAL_MESSAGE)
                                 (sendMessage cl participantId REMOVAL_MESSAGE)
                                 (sleep PRE_NOTIFICATION s2) of
                            (Inr u, s3) \<Rightarrow>
                              pace BETWEEN_REMOVALS i n
                                ((push ((entry phoneNumber ''removed'')
                                          \<lparr>notificationSent := Some True\<rparr>) s3)
                                   \<lparr>successCount := successCount s3 + 1\<rparr>)
                          | (Inl msgErr, s3) \<Rightarrow>
                              pace BETWEEN_REMOVALS i n
                                ((push ((entry phoneNumber ''removed'')
                                          \<lparr>notificationSent := Some False, msgError := Some msgErr\<rparr>) s3)
                                   \<lparr>successCount := successCount s3 + 1\<rparr>)))))"

fun remove_loop ::
  "('w, 'r) client \<Rightarrow> chat \<Rightarrow> string \<Rightarrow> nat \<Rightarrow> nat \<Rightarrow> string list \<Rightarrow> 'w run_state \<Rightarrow> 'w run_state" where
  "remove_loop cl g msg n i [] s = s"
| "remove_loop cl g msg n i (phoneNumber # rest) s =
     remove_loop cl g msg n (i + 1) rest (remove_iteration cl g msg n i phoneNumber s)"

text \<open>Lines 172-226; \<open>Inr\<close> carries \<^verbatim>\<open>targetGroup\<close>, \<^verbatim>\<open>participantsToRemove\<close>, \<^verbatim>\<open>notInGroup\<close>.\<close>

definition remove_prepare ::
  "('w, 'r) client \<Rightarrow> string list \<Rightarrow> 'w run_state
     \<Rightarrow> (run_status + chat \<times> string list \<times> string list) \<times> 'w run_state" where
  "remove_prepare cl inactive_participants s =
     (case await GetChats (getChats cl) s of
        (Inl e, s1) \<Rightarrow> (Inl (SetupError e), s1)
      | (Inr chats, s1) \<Rightarrow>
          (case find_group TARGET_GROUP_ID_remove chats of
             None \<Rightarrow> (Inl GroupNotFound, s1)
           | Some targetGroup \<Rightarrow>
               if is_admin (info_wid cl) targetGroup then
                 (let participantsToRemove =
                        filter (\<lambda>phoneNumber. phoneNumber \<in> set (currentParticipants targetGroup))
                          inactive_participants;
                      notInGroup =
                        filter (\<lambda>phoneNumber. phoneNumber \<notin> set (currentParticipants targetGroup))
                          inactive_participants
                  in if participantsToRemove = [] then (Inl NothingToDo, s1)
                     else (Inr (targetGroup, participantsToRemove, notInGroup), s1))
               else (Inl NotAdmin, s1)))"

text \<open>Lines 312-344: the statistics recomputed from \<^verbatim>\<open>results\<close>, then the file.\<close>

definition remove_save :: "chat \<Rightarrow> string list \<Rightarrow> string list \<Rightarrow> 'w run_state \<Rightarrow> 'w run_state" where
  "remove_save targetGroup participantsToRemove notInGroup s =
     s\<lparr>written := Some (RemovalResults
          \<lparr>removal_groupName = name targetGroup,
           removal_totalToProcess = length participantsToRemove,
           removal_successCount = successCount s,
           removal_failCount = failCount s,
           removal_alreadyRemovedCount =
             length (filter (\<lambda>r. status r = ''already_removed'') (results s)),
           removal_notificationsSent =
             length (filter (\<lambda>r. status r = ''removed'' \<and> notificationSent r = Some True) (results s)),
           removal_results = results s,
           removal_notInGroup = notInGroup\<rparr>)\<rparr>"

definition removeInactiveParticipants ::
  "('w, 'r) client \<Rightarrow> string \<Rightarrow> string list \<Rightarrow> 'w \<Rightarrow> run_status \<times> 'w run_state" where
  "removeInactiveParticipants cl REMOVAL_MESSAGE inactive_participants w =
     (case remove_prepare cl inactive_participants (init_state w) of
        (Inl early, s1) \<Rightarrow> (early, s1)
      | (Inr (targetGroup, participantsToRemove, notInGroup), s1) \<Rightarrow>
          (Completed,
           remove_save targetGroup participantsToRemove notInGroup
             (remove_loop cl targetGroup REMOVAL_MESSAGE
                (length participantsToRemove) 0 participantsToRemove s1)))"

subsection \<open>Interruption (the \<^verbatim>\<open>process.on('SIGINT', ...)\<close> handler of both scripts)\<close>

text \<open>
  The handler destroys the client and calls \<^verbatim>\<open>process.exit(0)\<close>; it touches neither
  \<^verbatim>\<open>results\<close> nor the file system. \<^verbatim>\<open>client.destroy()\<close> is taken to resolve.
\<close>

definition sigint_handler :: "('w, 'r) client \<Rightarrow> 'w run_state \<Rightarrow> 'w run_state" where
  "sigint_handler cl s = s\<lparr>world := destroy cl (world s), events := events s @ [Destroy, Exit 0]\<rparr>"

text \<open>
  A run that receives the signal while the loop is suspended between two targets: the
  first \<open>k\<close> targets have been processed (the wait after target \<open>k\<close> included), the handler
  runs and the process exits before the loop resumes. With \<open>k\<close> at or beyond the number of
  targets the function has already returned (the file is written in the same synchronous
  stretch as the end of the loop) and the signal only ends the idle process.
\<close>

definition add_interrupted ::
  "('w, 'r) client \<Rightarrow> string \<Rightarrow> string list \<Rightarrow> nat \<Rightarrow> 'w \<Rightarrow> 'w run_state" where
  "add_interrupted cl INVITE_MESSAGE participants_to_add k w =
     (case add_prepare cl participants_to_add (init_state w) of
        (Inl early, s1) \<Rightarrow> sigint_handler cl s1
      | (Inr (targetGroup, participantsToAdd, alreadyInGroup, groupInviteCode), s1) \<Rightarrow>
          if k < length participantsToAdd
          then sigint_handler cl
                 (add_loop cl (chat_id targetGroup) groupInviteCode INVITE_MESSAGE
                    (length participantsToAdd) 0 (take k participantsToAdd) s1)
          else sigint_handler cl (snd (addParticipantsToGroup cl INVITE_MESSAGE participants_to_add w)))"

definition remove_interrupted ::
  "('w, 'r) client \<Rightarrow> string \<Rightarrow> string list \<Rightarrow> nat \<Rightarrow> 'w \<Rightarrow> 'w run_state" where
  "remove_interrupted cl REMOVAL_MESSAGE inactive_participants k w =
     (case remove_prepare cl inactive_participants (init_state w) of
        (Inl early, s1) \<Rightarrow> sigint_handler cl s1
      | (Inr (targetGroup, participantsToRemove, notInGroup), s1) \<Rightarrow>
          if k < length participantsToRemove
          then sigint_handler cl
                 (remove_loop cl targetGroup REMOVAL_MESSAGE
                    (length participantsToRemove) 0 (take k participantsToRemove) s1)
          else sigint_handler cl
                 (snd (removeInactiveParticipants cl REMOVAL_MESSAGE inactive_participants w)))"

subsection \<open>A simulated session for concrete runs\<close>

text \<open>
  A small stateful client: one group, whose membership the mutation calls really change,
  and lists of participant ids for which a call is rejected or silently has no effect.
\<close>

record sim_world =
  sim_group :: chat
  sim_invite :: "string option"
  sim_add_rejected :: "string list"
  sim_add_ignored :: "string list"
  sim_remove_rejected :: "string list"
  sim_remove_ignored :: "string list"
  sim_send_rejected :: "string list"

definition sim_member :: "string \<Rightarrow> participant" where
  "sim_member pid = \<lparr>user = takeWhile (\<lambda>c. c \<noteq> CHR ''@'') pid, serialized = pid, isAdmin = False\<rparr>"

definition sim_client :: "string \<Rightarrow> (sim_world, bool) client" where
  "sim_client me =
     \<lparr>info_wid = me,
      getChats = (\<lambda>w. (Inr [sim_group w], w)),
      getChatById = (\<lambda>gid w.
        if gid = chat_id (sim_group w) then (Inr (sim_group w), w) else (Inl ''chat not found'', w)),
      getInviteCode = (\<lambda>gid w.
        case sim_invite w of None \<Rightarrow> (Inl ''invite code unavailable'', w) | Some c \<Rightarrow> (Inr c, w)),
      addParticipants = (\<lambda>gid pids w.
        if list_ex (\<lambda>p. p \<in> set (sim_add_rejected w)) pids then (Inl ''add rejected'', w)
        else (Inr True,
              w\<lparr>sim_group := (sim_group w)\<lparr>participants :=
                   participants (sim_group w) @
                   map sim_member (filter (\<lambda>p. p \<notin> set (sim_add_ignored w)) pids)\<rparr>\<rparr>)),
      removeParticipants = (\<lambda>gid pids w.
        if list_ex (\<lambda>p. p \<in> set (sim_remove_rejected w)) pids then (Inl ''remove rejected'', w)
        else (Inr True,
              w\<lparr>sim_group := (sim_group w)\<lparr>participants :=
                   filter (\<lambda>p. if serialized p \<in> set pids
                               then serialized p \<in> set (sim_remove_ignored w) else True)
                     (participants (sim_group w))\<rparr>\<rparr>)),
      sendMessage = (\<lambda>pid msg w.
        if pid \<in> set (sim_send_rejected w) then (Inl ''send rejected'', w) else (Inr (), w)),
      destroy = (\<lambda>w. w)\<rparr>"

definition admin_me :: participant where
  "admin_me = \<lparr>user = ''9000'', serialized = ''9000@c.us'', isAdmin = True\<rparr>"

definition plain_me :: participant where
  "plain_me = \<lparr>user = ''9000'', serialized = ''9000@c.us'', isAdmin = False\<rparr>"

definition sim_world_of :: "chat \<Rightarrow> string option \<Rightarrow> sim_world" where
  "sim_world_of g code =
     \<lparr>sim_group = g, sim_invite = code, sim_add_rejected = [], sim_add_ignored = [],
      sim_remove_rejected = [], sim_remove_ignored = [], sim_send_rejected = []\<rparr>"

definition add_group :: "participant list \<Rightarrow> chat" where
  "add_group ps = \<lparr>chat_id = TARGET_GROUP_ID_add, isGroup = True, name = ''slots'', participants = ps\<rparr>"

definition remove_group :: "participant list \<Rightarrow> chat" where
  "remove_group ps =
     \<lparr>chat_id = TARGET_GROUP_ID_remove, isGroup = True, name = ''slots'', participants = ps\<rparr>"

definition demo_client :: "(sim_world, bool) client" where
  "demo_client = sim_client ''9000@c.us''"

subsection \<open>What a finished run has put on disk\<close>

definition persisted_results :: "'w run_state \<Rightarrow> outcome list option" where
  "persisted_results s =
     (case written s of
        None \<Rightarrow> None
      | Some (AddResults rep) \<Rightarrow> Some (add_results rep)
      | Some (RemovalResults rep) \<Rightarrow> Some (removal_results rep))"

text \<open>The \<^verbatim>\<open>alreadyInGroup\<close> key of the add file, the \<^verbatim>\<open>notInGroup\<close> key of the removal file.\<close>

definition persisted_complement :: "'w run_state \<Rightarrow> string list option" where
  "persisted_complement s =
     (case written s of
        None \<Rightarrow> None
      | Some (AddResults rep) \<Rightarrow> Some (add_alreadyInGroup rep)
      | Some (RemovalResults rep) \<Rightarrow> Some (removal_notInGroup rep))"

subsection \<open>Concrete sessions\<close>

text \<open>The acting account is in the group without admin rights.\<close>

definition w_not_admin_add :: sim_world where
  "w_not_admin_add = sim_world_of (add_group [plain_me, sim_member ''1111@c.us'']) (Some ''abc'')"

definition w_not_admin_remove :: sim_world where
  "w_not_admin_remove = sim_world_of (remove_group [plain_me, sim_member ''1111@c.us'']) None"

text \<open>Admin sessions with some members present.\<close>

definition w_empty_group :: sim_world where
  "w_empty_group = sim_world_of (add_group [admin_me]) None"

definition w_one_member :: sim_world where
  "w_one_member = sim_world_of (add_group [admin_me, sim_member ''1111@c.us'']) None"

definition w_two_members :: sim_world where
  "w_two_members =
     sim_world_of (remove_group [admin_me, sim_member ''1111@c.us'', sim_member ''2222@c.us'']) None"

text \<open>Direct adds of 1111 are rejected; no invite code can be fetched.\<close>

definition w_no_invite :: sim_world where
  "w_no_invite = (sim_world_of (add_group [admin_me]) None)\<lparr>sim_add_rejected := [''1111@c.us'']\<rparr>"

text \<open>Direct adds of 1111 are rejected; an invite code exists; messages go through.\<close>

definition w_invite_ok :: sim_world where
  "w_invite_ok =
     (sim_world_of (add_group [admin_me]) (Some ''abc''))\<lparr>sim_add_rejected := [''1111@c.us'']\<rparr>"

text \<open>As before, but messages to 1111 are rejected as well.\<close>

definition w_invite_broken :: sim_world where
  "w_invite_broken = w_invite_ok\<lparr>sim_send_rejected := [''1111@c.us'']\<rparr>"

text \<open>Every direct add is rejected and there is no invite code: every target fails.\<close>

definition w_all_rejected :: sim_world where
  "w_all_rejected =
     (sim_world_of (add_group [admin_me]) None)\<lparr>sim_add_rejected := [''1111@c.us'', ''2222@c.us'']\<rparr>"

text \<open>Every removal is rejected.\<close>

definition w_removal_rejected :: sim_world where
  "w_removal_rejected = w_two_members\<lparr>sim_remove_rejected := [''1111@c.us'', ''2222@c.us'']\<rparr>"



text \<open>Removal works, the notification to 1111 is rejected.\<close>

definition w_unreachable :: sim_world where
  "w_unreachable = w_two_members\<lparr>sim_send_rejected := [''1111@c.us'']\<rparr>"


text \<open>
  A removal group in which the member with user part 2222 is listed under another id
  (\<^verbatim>\<open>2222@lid\<close>): the filter before the loop matches it by user part, the pre-check inside
  the loop does not find \<^verbatim>\<open>2222@c.us\<close>.
\<close>

definition w_lid_member :: sim_world where
  "w_lid_member =
     sim_world_of (remove_group [admin_me, sim_member ''1111@c.us'',
        \<lparr>user = ''2222'', serialized = ''2222@lid'', isAdmin = False\<rparr>]) None"

section \<open>Basic facts about the state operations\<close>

lemmas sim_defs = demo_client_def sim_client_def sim_world_of_def add_group_def remove_group_def
  admin_me_def sim_member_def TARGET_GROUP_ID_add_def TARGET_GROUP_ID_remove_def

lemmas run_defs = addParticipantsToGroup_def add_prepare_def add_save_def add_iteration_def
  direct_add_def invite_fallback_def add_catch_def removeInactiveParticipants_def remove_prepare_def
  remove_save_def remove_iteration_def remove_catch_def await_def sleep_def push_def pace_def
  entry_def init_state_def find_group_def is_admin_def currentParticipants_def in_group_def
  participantId_of_def inviteLink_of_def inviteMessage_of_def Let_def

lemma sleep_fields [simp]:
  "results (sleep k s) = results s" "written (sleep k s) = written s"
  "events (sleep k s) = events s @ [Delay k]" "world (sleep k s) = world s"
  "successCount (sleep k s) = successCount s" "failCount (sleep k s) = failCount s"
  "inviteCount (sleep k s) = inviteCount s" "skipCount (sleep k s) = skipCount s"
  by (simp_all add: sleep_def)

lemma pace_fields [simp]:
  "results (pace k i n s) = results s" "written (pace k i n s) = written s"
  "world (pace k i n s) = world s"
  "successCount (pace k i n s) = successCount s" "failCount (pace k i n s) = failCount s"
  "inviteCount (pace k i n s) = inviteCount s" "skipCount (pace k i n s) = skipCount s"
  by (simp_all add: pace_def)

lemma push_fields [simp]:
  "results (push r s) = results s @ [r]" "written (push r s) = written s"
  "events (push r s) = events s" "world (push r s) = world s"
  "successCount (push r s) = successCount s" "failCount (push r s) = failCount s"
  "inviteCount (push r s) = inviteCount s" "skipCount (push r s) = skipCount s"
  by (simp_all add: push_def)

lemma entry_fields [simp]:
  "number (entry p st) = p" "status (entry p st) = st" "method_used (entry p st) = None"
  "inviteLink (entry p st) = None" "error (entry p st) = None"
  "notificationSent (entry p st) = None" "msgError (entry p st) = None"
  by (simp_all add: entry_def)

lemma init_state_fields [simp]:
  "results (init_state w) = []" "written (init_state w) = None" "events (init_state w) = []"
  "world (init_state w) = w"
  by (simp_all add: init_state_def)

lemma add_save_fields [simp]:
  "results (add_save g a b s) = results s" "events (add_save g a b s) = events s"
  by (simp_all add: add_save_def)

lemma remove_save_fields [simp]:
  "results (remove_save g a b s) = results s" "events (remove_save g a b s) = events s"
  by (simp_all add: remove_save_def)

lemma sigint_handler_fields [simp]:
  "results (sigint_handler cl s) = results s" "written (sigint_handler cl s) = written s"
  "events (sigint_handler cl s) = events s @ [Destroy, Exit 0]"
  by (simp_all add: sigint_handler_def)

section \<open>Every pass of a loop body records one entry\<close>

lemma add_catch_results:
  "results (add_catch i n p msg s) =
     results s @ [(entry p ''failed'')\<lparr>method_used := Some ''error'', error := Some msg\<rparr>]"
  "written (add_catch i n p msg s) = written s"
  by (simp_all add: add_catch_def)

lemma direct_add_Inl:
  assumes "direct_add cl gid p pid s = (Inl e, s')"
  shows "results s' = results s" "written s' = written s"
  using assms
  by (auto simp: direct_add_def await_def split: prod.splits sum.splits if_splits)

lemma direct_add_Inr:
  assumes "direct_add cl gid p pid s = (Inr u, s')"
  shows "results s' = results s @ [(entry p ''added'')\<lparr>method_used := Some ''direct''\<rparr>]"
    "written s' = written s"
  using assms
  by (auto simp: direct_add_def await_def split: prod.splits sum.splits if_splits)

lemma invite_fallback_Inl:
  assumes "invite_fallback cl code msg p pid e0 s = (Inl e, s')"
  shows "results s' = results s" "written s' = written s"
  using assms
  by (auto simp: invite_fallback_def Let_def await_def split: prod.splits sum.splits if_splits)

lemma invite_fallback_Inr:
  assumes "invite_fallback cl code msg p pid e0 s = (Inr u, s')"
  shows "\<exists>r. results s' = results s @ [r] \<and> number r = p" "written s' = written s"
  using assms
  by (auto simp: invite_fallback_def Let_def await_def split: prod.splits sum.splits if_splits)

lemma add_iteration_one:
  "\<exists>r. results (add_iteration cl gid code msg n i p s) = results s @ [r] \<and> number r = p"
  by (auto simp: add_iteration_def Let_def add_catch_results await_def
      split: prod.splits sum.splits
      dest!: direct_add_Inl(1) direct_add_Inr(1) invite_fallback_Inl(1) invite_fallback_Inr(1))

lemma add_iteration_written:
  "written (add_iteration cl gid code msg n i p s) = written s"
  by (auto simp: add_iteration_def Let_def add_catch_results await_def
      split: prod.splits sum.splits
      dest!: direct_add_Inl(2) direct_add_Inr(2) invite_fallback_Inl(2) invite_fallback_Inr(2))

lemma add_loop_numbers:
  "map number (results (add_loop cl gid code msg n i ps s)) = map number (results s) @ ps"
proof (induction ps arbitrary: i s)
  case Nil
  show ?case by simp
next
  case (Cons p ps)
  obtain r where "results (add_iteration cl gid code msg n i p s) = results s @ [r]" "number r = p"
    using add_iteration_one by blast
  then show ?case by (simp add: Cons.IH)
qed

lemma add_loop_written:
  "written (add_loop cl gid code msg n i ps s) = written s"
  by (induction ps arbitrary: i s) (simp_all add: add_iteration_written)

lemma remove_catch_results:
  "results (remove_catch i n p msg s) = results s @ [(entry p ''failed'')\<lparr>error := Some msg\<rparr>]"
  "written (remove_catch i n p msg s) = written s"
  by (simp_all add: remove_catch_def)

lemma remove_iteration_one:
  "\<exists>r. results (remove_iteration cl g msg n i p s) = results s @ [r] \<and> number r = p"
  by (auto simp: remove_iteration_def Let_def remove_catch_results await_def
      split: prod.splits sum.splits option.splits)

lemma remove_iteration_written:
  "written (remove_iteration cl g msg n i p s) = written s"
  by (auto simp: remove_iteration_def Let_def remove_catch_results await_def
      split: prod.splits sum.splits option.splits)

lemma remove_loop_numbers:
  "map number (results (remove_loop cl g msg n i ps s)) = map number (results s) @ ps"
proof (induction ps arbitrary: i s)
  case Nil
  show ?case by simp
next
  case (Cons p ps)
  obtain r where "results (remove_iteration cl g msg n i p s) = results s @ [r]" "number r = p"
    using remove_iteration_one by blast
  then show ?case by (simp add: Cons.IH)
qed

lemma remove_loop_written:
  "written (remove_loop cl g msg n i ps s) = written s"
  by (induction ps arbitrary: i s) (simp_all add: remove_iteration_written)

section \<open>What the set-up phase hands to the loop\<close>

lemma add_prepare_Inr:
  assumes "add_prepare cl tgts s = (Inr (g, toAdd, already, code), s1)"
  shows "toAdd = filter (\<lambda>p. p \<notin> set (currentParticipants g)) tgts"
    and "already = filter (\<lambda>p. p \<in> set (currentParticipants g)) tgts"
    and "toAdd \<noteq> []"
    and "results s1 = results s" and "written s1 = written s"
    and "is_admin (info_wid cl) g"
    and "\<exists>chats. fst (getChats cl (world s)) = Inr chats \<and> find_group TARGET_GROUP_ID_add chats = Some g"
  using assms
  by (auto simp: add_prepare_def Let_def await_def
      split: prod.splits sum.splits option.splits if_splits)

lemma add_prepare_ready:
  assumes "getChats cl w = (Inr chats, w1)"
    and "find_group TARGET_GROUP_ID_add chats = Some g"
    and "is_admin (info_wid cl) g"
    and "filter (\<lambda>p. p \<notin> set (currentParticipants g)) tgts \<noteq> []"
  shows "\<exists>code s1. add_prepare cl tgts (init_state w) =
           (Inr (g, filter (\<lambda>p. p \<notin> set (currentParticipants g)) tgts,
                 filter (\<lambda>p. p \<in> set (currentParticipants g)) tgts, code), s1)
           \<and> results s1 = [] \<and> written s1 = None"
  using assms
  by (auto simp: add_prepare_def Let_def await_def init_state_def
      split: prod.splits sum.splits option.splits if_splits)

lemma remove_prepare_Inr:
  assumes "remove_prepare cl tgts s = (Inr (g, toRemove, notIn), s1)"
  shows "toRemove = filter (\<lambda>p. p \<in> set (currentParticipants g)) tgts"
    and "notIn = filter (\<lambda>p. p \<notin> set (currentParticipants g)) tgts"
    and "toRemove \<noteq> []"
    and "results s1 = results s" and "written s1 = written s"
    and "is_admin (info_wid cl) g"
    and "\<exists>chats. fst (getChats cl (world s)) = Inr chats \<and> find_group TARGET_GROUP_ID_remove chats = Some g"
  using assms
  by (auto simp: remove_prepare_def Let_def await_def
      split: prod.splits sum.splits option.splits if_splits)

lemma remove_prepare_ready:
  assumes "getChats cl w = (Inr chats, w1)"
    and "find_group TARGET_GROUP_ID_remove chats = Some g"
    and "is_admin (info_wid cl) g"
    and "filter (\<lambda>p. p \<in> set (currentParticipants g)) tgts \<noteq> []"
  shows "\<exists>s1. remove_prepare cl tgts (init_state w) =
           (Inr (g, filter (\<lambda>p. p \<in> set (currentParticipants g)) tgts,
                 filter (\<lambda>p. p \<notin> set (currentParticipants g)) tgts), s1)
           \<and> results s1 = [] \<and> written s1 = None"
  using assms
  by (auto simp: remove_prepare_def Let_def await_def init_state_def
      split: prod.splits sum.splits option.splits if_splits)

lemma add_run_Completed:
  assumes "addParticipantsToGroup cl msg tgts w = (Completed, s)"
  shows "\<exists>g toAdd already code s1.
           add_prepare cl tgts (init_state w) = (Inr (g, toAdd, already, code), s1) \<and>
           s = add_save g toAdd already
                 (add_loop cl (chat_id g) code msg (length toAdd) 0 toAdd s1)"
proof (cases "add_prepare cl tgts (init_state w)")
  case (Pair a s1)
  show ?thesis
  proof (cases a)
    case (Inl early)
    with Pair assms have "early = Completed"
      by (simp add: addParticipantsToGroup_def)
    with Pair Inl show ?thesis
      by (auto simp: add_prepare_def Let_def await_def
          split: prod.splits sum.splits option.splits if_splits)
  next
    case (Inr t)
    obtain g toAdd already code where "t = (g, toAdd, already, code)"
      by (cases t) auto
    with Pair Inr assms show ?thesis
      by (auto simp: addParticipantsToGroup_def)
  qed
qed

lemma remove_run_Completed:
  assumes "removeInactiveParticipants cl msg tgts w = (Completed, s)"
  shows "\<exists>g toRemove notIn s1.
           remove_prepare cl tgts (init_state w) = (Inr (g, toRemove, notIn), s1) \<and>
           s = remove_save g toRemove notIn
                 (remove_loop cl g msg (length toRemove) 0 toRemove s1)"
proof (cases "remove_prepare cl tgts (init_state w)")
  case (Pair a s1)
  show ?thesis
  proof (cases a)
    case (Inl early)
    with Pair assms have "early = Completed"
      by (simp add: removeInactiveParticipants_def)
    with Pair Inl show ?thesis
      by (auto simp: remove_prepare_def Let_def await_def
          split: prod.splits sum.splits option.splits if_splits)
  next
    case (Inr t)
    obtain g toRemove notIn where "t = (g, toRemove, notIn)"
      by (cases t) auto
    with Pair Inr assms show ?thesis
      by (auto simp: removeInactiveParticipants_def)
  qed
qed

section \<open>The entries of a completed run\<close>

lemma add_precheck_skips:
  assumes "await (GetChatById gid) (getChatById cl gid) s = (Inr updatedGroup, s1)"
    and "in_group (participantId_of p) updatedGroup"
  shows "add_iteration cl gid code msg n i p s =
           (push ((entry p ''already_in_group'')\<lparr>method_used := Some ''skipped''\<rparr>) s1)
             \<lparr>skipCount := skipCount s1 + 1\<rparr>"
  using assms by (simp add: add_iteration_def)

lemma remove_precheck_skips:
  assumes "find (\<lambda>q. serialized q = participantId_of p) (participants g) = None"
  shows "remove_iteration cl g msg n i p s =
           push ((entry p ''already_removed'')\<lparr>notificationSent := Some False\<rparr>) s"
  using assms by (simp add: remove_iteration_def)

lemma add_run_numbers:
  assumes "addParticipantsToGroup cl msg tgts w = (Completed, s)"
    and "getChats cl w = (Inr chats, w1)"
    and "find_group TARGET_GROUP_ID_add chats = Some g"
  shows "map number (results s) = filter (\<lambda>p. p \<notin> set (currentParticipants g)) tgts"
    and "persisted_results s = Some (results s)"
    and "persisted_complement s = Some (filter (\<lambda>p. p \<in> set (currentParticipants g)) tgts)"
proof -
  obtain g' toAdd already code s1 where
    prep: "add_prepare cl tgts (init_state w) = (Inr (g', toAdd, already, code), s1)"
    and s: "s = add_save g' toAdd already (add_loop cl (chat_id g') code msg (length toAdd) 0 toAdd s1)"
    using add_run_Completed [OF assms(1)] by blast
  from add_prepare_Inr(7) [OF prep] assms(2,3) have g: "g' = g" by auto
  moreover have "results s1 = []" using add_prepare_Inr(4) [OF prep] by simp
  moreover note add_prepare_Inr(1) [OF prep]
  ultimately show "map number (results s) = filter (\<lambda>p. p \<notin> set (currentParticipants g)) tgts"
    using s by (simp add: add_loop_numbers)
  show "persisted_results s = Some (results s)"
    using s by (simp add: persisted_results_def add_save_def)
  show "persisted_complement s = Some (filter (\<lambda>p. p \<in> set (currentParticipants g)) tgts)"
    using s g add_prepare_Inr(2) [OF prep] by (simp add: persisted_complement_def add_save_def)
qed

lemma remove_run_numbers:
  assumes "removeInactiveParticipants cl msg tgts w = (Completed, s)"
    and "getChats cl w = (Inr chats, w1)"
    and "find_group TARGET_GROUP_ID_remove chats = Some g"
  shows "map number (results s) = filter (\<lambda>p. p \<in> set (currentParticipants g)) tgts"
    and "persisted_results s = Some (results s)"
    and "persisted_complement s = Some (filter (\<lambda>p. p \<notin> set (currentParticipants g)) tgts)"
proof -
  obtain g' toRemove notIn s1 where
    prep: "remove_prepare cl tgts (init_state w) = (Inr (g', toRemove, notIn), s1)"
    and s: "s = remove_save g' toRemove notIn (remove_loop cl g' msg (length toRemove) 0 toRemove s1)"
    using remove_run_Completed [OF assms(1)] by blast
  from remove_prepare_Inr(7) [OF prep] assms(2,3) have g: "g' = g" by auto
  moreover have "results s1 = []" using remove_prepare_Inr(4) [OF prep] by simp
  moreover note remove_prepare_Inr(1) [OF prep]
  ultimately show "map number (results s) = filter (\<lambda>p. p \<in> set (currentParticipants g)) tgts"
    using s by (simp add: remove_loop_numbers)
  show "persisted_results s = Some (results s)"
    using s by (simp add: persisted_results_def remove_save_def)
  show "persisted_complement s = Some (filter (\<lambda>p. p \<notin> set (currentParticipants g)) tgts)"
    using s g remove_prepare_Inr(2) [OF prep] by (simp add: persisted_complement_def remove_save_def)
qed

text \<open>Concrete runs of the simulated sessions, used below.\<close>

lemma sim_getChats:
  "getChats demo_client w = (Inr [sim_group w], w)"
  by (simp add: demo_client_def sim_client_def)

lemma sim_precheck:
  "chat_id (sim_group w) = gid \<Longrightarrow>
   await (GetChatById gid) (getChatById demo_client gid) (init_state w)
     = (Inr (sim_group w), (init_state w)\<lparr>events := [GetChatById gid]\<rparr>)"
  by (simp add: await_def init_state_def demo_client_def sim_client_def)

lemma add_run_ready:
  assumes "getChats cl w = (Inr chats, w1)"
    and "find_group TARGET_GROUP_ID_add chats = Some g"
    and "is_admin (info_wid cl) g"
    and "filter (\<lambda>p. p \<notin> set (currentParticipants g)) tgts \<noteq> []"
  shows "fst (addParticipantsToGroup cl msg tgts w) = Completed"
proof -
  obtain code s1 where "add_prepare cl tgts (init_state w) =
           (Inr (g, filter (\<lambda>p. p \<notin> set (currentParticipants g)) tgts,
                 filter (\<lambda>p. p \<in> set (currentParticipants g)) tgts, code), s1)"
    using add_prepare_ready [OF assms] by blast
  then show ?thesis by (simp add: addParticipantsToGroup_def)
qed

lemma remove_run_ready:
  assumes "getChats cl w = (Inr chats, w1)"
    and "find_group TARGET_GROUP_ID_remove chats = Some g"
    and "is_admin (info_wid cl) g"
    and "filter (\<lambda>p. p \<in> set (currentParticipants g)) tgts \<noteq> []"
  shows "fst (removeInactiveParticipants cl msg tgts w) = Completed"
proof -
  obtain s1 where "remove_prepare cl tgts (init_state w) =
           (Inr (g, filter (\<lambda>p. p \<in> set (currentParticipants g)) tgts,
                 filter (\<lambda>p. p \<notin> set (currentParticipants g)) tgts), s1)"
    using remove_prepare_ready [OF assms] by blast
  then show ?thesis by (simp add: removeInactiveParticipants_def)
qed

section \<open>Runs against a group that already has the wanted membership\<close>

lemma add_loop_satisfied:
  assumes "\<And>v. I v \<Longrightarrow> I (snd (getChatById cl gid v))"
    and "\<And>v p. I v \<Longrightarrow> p \<in> set ps \<Longrightarrow>
           \<exists>g'. fst (getChatById cl gid v) = Inr g' \<and> in_group (participantId_of p) g'"
    and "I (world s)"
  shows "results (add_loop cl gid code msg n i ps s)
           = results s @ map (\<lambda>p. (entry p ''already_in_group'')\<lparr>method_used := Some ''skipped''\<rparr>) ps
         \<and> events (add_loop cl gid code msg n i ps s)
           = events s @ replicate (length ps) (GetChatById gid)"
  using assms
proof (induction ps arbitrary: i s)
  case Nil
  show ?case by simp
next
  case (Cons p ps)
  obtain g' where g': "fst (getChatById cl gid (world s)) = Inr g'"
    and m: "in_group (participantId_of p) g'"
    using Cons.prems(2) [of "world s" p] Cons.prems(3) by auto
  let ?s1 = "s\<lparr>world := snd (getChatById cl gid (world s)), events := events s @ [GetChatById gid]\<rparr>"
  let ?t = "(push ((entry p ''already_in_group'')\<lparr>method_used := Some ''skipped''\<rparr>) ?s1)
              \<lparr>skipCount := skipCount ?s1 + 1\<rparr>"
  from g' have "await (GetChatById gid) (getChatById cl gid) s = (Inr g', ?s1)"
    by (auto simp: await_def split: prod.splits)
  then have it: "add_iteration cl gid code msg n i p s = ?t"
    using m by (rule add_precheck_skips)
  have "I (world ?t)" using Cons.prems(1) [OF Cons.prems(3)] by simp
  with Cons.IH [of ?t "i + 1"] Cons.prems(1,2)
  have "results (add_loop cl gid code msg n (i + 1) ps ?t)
           = results ?t @ map (\<lambda>p. (entry p ''already_in_group'')\<lparr>method_used := Some ''skipped''\<rparr>) ps
         \<and> events (add_loop cl gid code msg n (i + 1) ps ?t)
           = events ?t @ replicate (length ps) (GetChatById gid)"
    by simp
  then show ?case by (simp add: it replicate_append_same [symmetric] del: replicate_append_same)
qed

lemma remove_loop_satisfied:
  assumes "list_all (\<lambda>p. \<not> in_group (participantId_of p) g) ps"
  shows "results (remove_loop cl g msg n i ps s)
           = results s @ map (\<lambda>p. (entry p ''already_removed'')\<lparr>notificationSent := Some False\<rparr>) ps
         \<and> events (remove_loop cl g msg n i ps s) = events s"
  using assms
proof (induction ps arbitrary: i s)
  case Nil
  show ?case by simp
next
  case (Cons p ps)
  from Cons.prems have "find (\<lambda>q. serialized q = participantId_of p) (participants g) = None"
    by (simp add: in_group_def list_ex_iff find_None_iff)
  then have "remove_iteration cl g msg n i p s =
      push ((entry p ''already_removed'')\<lparr>notificationSent := Some False\<rparr>) s"
    by (rule remove_precheck_skips)
  with Cons show ?case by simp
qed

lemma add_prepare_state:
  assumes "getChats cl w = (Inr chats, w1)"
    and "find_group TARGET_GROUP_ID_add chats = Some g"
    and "is_admin (info_wid cl) g"
    and "filter (\<lambda>p. p \<notin> set (currentParticipants g)) tgts \<noteq> []"
  shows "\<exists>code. add_prepare cl tgts (init_state w) =
           (Inr (g, filter (\<lambda>p. p \<notin> set (currentParticipants g)) tgts,
                 filter (\<lambda>p. p \<in> set (currentParticipants g)) tgts, code),
            (init_state (snd (getInviteCode cl (chat_id g) w1)))
              \<lparr>events := [GetChats, GetInviteCode (chat_id g)]\<rparr>)"
  using assms
  by (auto simp: add_prepare_def Let_def await_def init_state_def
      split: prod.splits sum.splits option.splits if_splits)

lemma remove_prepare_state:
  assumes "getChats cl w = (Inr chats, w1)"
    and "find_group TARGET_GROUP_ID_remove chats = Some g"
    and "is_admin (info_wid cl) g"
    and "filter (\<lambda>p. p \<in> set (currentParticipants g)) tgts \<noteq> []"
  shows "remove_prepare cl tgts (init_state w) =
           (Inr (g, filter (\<lambda>p. p \<in> set (currentParticipants g)) tgts,
                 filter (\<lambda>p. p \<notin> set (currentParticipants g)) tgts),
            (init_state w1)\<lparr>events := [GetChats]\<rparr>)"
  using assms
  by (auto simp: remove_prepare_def Let_def await_def init_state_def)

section \<open>The claims\<close>

text \<open>
  C1 (as amended). In a run that reaches its end, \<^verbatim>\<open>results\<close> holds exactly one entry for
  each supplied number that passed the filter before the loop (not yet in the group for
  adds, in the group for removals), in the order of the input. A supplied number on the
  other side of the filter gets no entry. Inside the loop, a number that the pre-check
  finds already in the wanted state gets the one entry \<^verbatim>\<open>already_in_group\<close>
  (\<^verbatim>\<open>already_removed\<close> for removals).
\<close>

theorem C1_one_outcome_per_filtered_target:
  "(addParticipantsToGroup cl INVITE_MESSAGE participants_to_add w = (Completed, s) \<and>
      getChats cl w = (Inr chats, w1) \<and> find_group TARGET_GROUP_ID_add chats = Some g
      \<longrightarrow> map number (results s)
            = filter (\<lambda>p. p \<notin> set (currentParticipants g)) participants_to_add)
   \<and> (removeInactiveParticipants cl' REMOVAL_MESSAGE inactive_participants w' = (Completed, s') \<and>
      getChats cl' w' = (Inr chats', w1') \<and> find_group TARGET_GROUP_ID_remove chats' = Some g'
      \<longrightarrow> map number (results s')
            = filter (\<lambda>p. p \<in> set (currentParticipants g')) inactive_participants)
   \<and> (await (GetChatById gid) (getChatById cl gid) t = (Inr updatedGroup, t1) \<and>
      in_group (participantId_of p) updatedGroup
      \<longrightarrow> results (add_iteration cl gid code INVITE_MESSAGE n i p t)
            = results t @ [(entry p ''already_in_group'')\<lparr>method_used := Some ''skipped''\<rparr>])
   \<and> (find (\<lambda>q. serialized q = participantId_of p') (participants g') = None
      \<longrightarrow> results (remove_iteration cl' g' REMOVAL_MESSAGE n' i' p' t')
            = results t' @ [(entry p' ''already_removed'')\<lparr>notificationSent := Some False\<rparr>])"
proof (intro conjI impI)
  assume "addParticipantsToGroup cl INVITE_MESSAGE participants_to_add w = (Completed, s) \<and>
      getChats cl w = (Inr chats, w1) \<and> find_group TARGET_GROUP_ID_add chats = Some g"
  then show "map number (results s)
       = filter (\<lambda>p. p \<notin> set (currentParticipants g)) participants_to_add"
    by (elim conjE) (rule add_run_numbers)
next
  assume "removeInactiveParticipants cl' REMOVAL_MESSAGE inactive_participants w' = (Completed, s') \<and>
      getChats cl' w' = (Inr chats', w1') \<and> find_group TARGET_GROUP_ID_remove chats' = Some g'"
  then show "map number (results s')
       = filter (\<lambda>p. p \<in> set (currentParticipants g')) inactive_participants"
    by (elim conjE) (rule remove_run_numbers)
next
  assume "await (GetChatById gid) (getChatById cl gid) t = (Inr updatedGroup, t1) \<and>
      in_group (participantId_of p) updatedGroup"
  then show "results (add_iteration cl gid code INVITE_MESSAGE n i p t)
       = results t @ [(entry p ''already_in_group'')\<lparr>method_used := Some ''skipped''\<rparr>]"
    by (auto simp: add_precheck_skips await_def split: prod.splits)
next
  assume "find (\<lambda>q. serialized q = participantId_of p') (participants g') = None"
  then show "results (remove_iteration cl' g' REMOVAL_MESSAGE n' i' p' t')
       = results t' @ [(entry p' ''already_removed'')\<lparr>notificationSent := Some False\<rparr>]"
    by (simp add: remove_precheck_skips)
qed

text \<open>
  The claim as first stated fails: of the two supplied numbers, the one already in the
  group is filtered out before the loop and the completed run records a single entry.
\<close>

theorem C1_counterexample:
  "fst (addParticipantsToGroup demo_client ''hello'' [''+1111'', ''+2222''] w_one_member) = Completed
   \<and> map number
        (results (snd (addParticipantsToGroup demo_client ''hello'' [''+1111'', ''+2222''] w_one_member)))
       = [''+2222'']
   \<and> map status
        (results (snd (addParticipantsToGroup demo_client ''hello'' [''+1111'', ''+2222''] w_one_member)))
       = [''added'']"
  by code_simp

text \<open>C1 on one add run, one removal run and the two pre-check branches.\<close>

theorem C1_witness:
  "map number (results (snd (addParticipantsToGroup demo_client ''hello'' [''+1111'', ''+2222'']
        w_one_member))) = [''+2222'']
   \<and> map number (results (snd (removeInactiveParticipants demo_client ''bye'' [''+1111'', ''+3333'']
        w_two_members))) = [''+1111'']
   \<and> results (add_iteration demo_client TARGET_GROUP_ID_add None ''hello'' 1 0 ''+1111''
        (init_state w_one_member))
       = [(entry ''+1111'' ''already_in_group'')\<lparr>method_used := Some ''skipped''\<rparr>]
   \<and> results (remove_iteration demo_client (sim_group w_two_members) ''bye'' 1 0 ''+3333''
        (init_state w_two_members))
       = [(entry ''+3333'' ''already_removed'')\<lparr>notificationSent := Some False\<rparr>]"
proof -
  note sim = sim_defs w_one_member_def w_two_members_def
  let ?ra = "addParticipantsToGroup demo_client ''hello'' [''+1111'', ''+2222''] w_one_member"
  let ?rr = "removeInactiveParticipants demo_client ''bye'' [''+1111'', ''+3333''] w_two_members"
  have "fst ?ra = Completed" and "fst ?rr = Completed"
    by (simp_all add: sim run_defs)
  then have a1: "?ra = (Completed, snd ?ra)" and r1: "?rr = (Completed, snd ?rr)"
    by (simp_all add: prod_eq_iff)
  have a3: "find_group TARGET_GROUP_ID_add [sim_group w_one_member] = Some (sim_group w_one_member)"
    and r3: "find_group TARGET_GROUP_ID_remove [sim_group w_two_members] = Some (sim_group w_two_members)"
    by (simp_all add: find_group_def sim)
  have a4: "await (GetChatById TARGET_GROUP_ID_add) (getChatById demo_client TARGET_GROUP_ID_add)
              (init_state w_one_member)
            = (Inr (sim_group w_one_member),
               (init_state w_one_member)\<lparr>events := [GetChatById TARGET_GROUP_ID_add]\<rparr>)"
    by (simp add: await_def init_state_def sim)
  have a5: "in_group (participantId_of ''+1111'') (sim_group w_one_member)"
    by (simp add: in_group_def participantId_of_def sim)
  have r4: "find (\<lambda>q. serialized q = participantId_of ''+3333'') (participants (sim_group w_two_members))
            = None"
    by (simp add: participantId_of_def sim)
  have ca: "filter (\<lambda>p. p \<notin> set (currentParticipants (sim_group w_one_member))) [''+1111'', ''+2222'']
            = [''+2222'']"
    and cr: "filter (\<lambda>p. p \<in> set (currentParticipants (sim_group w_two_members))) [''+1111'', ''+3333'']
            = [''+1111'']"
    by (simp_all add: currentParticipants_def sim)
  from C1_one_outcome_per_filtered_target
    [where cl = demo_client and INVITE_MESSAGE = "''hello''"
       and participants_to_add = "[''+1111'', ''+2222'']" and w = w_one_member and s = "snd ?ra"
       and chats = "[sim_group w_one_member]" and ?w1.0 = w_one_member and g = "sim_group w_one_member"
       and cl' = demo_client and REMOVAL_MESSAGE = "''bye''"
       and inactive_participants = "[''+1111'', ''+3333'']" and w' = w_two_members and s' = "snd ?rr"
       and chats' = "[sim_group w_two_members]" and w1' = w_two_members
       and g' = "sim_group w_two_members"
       and gid = TARGET_GROUP_ID_add and t = "init_state w_one_member"
       and updatedGroup = "sim_group w_one_member"
       and ?t1.0 = "(init_state w_one_member)\<lparr>events := [GetChatById TARGET_GROUP_ID_add]\<rparr>"
       and p = "''+1111''" and code = None and n = 1 and i = 0
       and p' = "''+3333''" and n' = 1 and i' = 0 and t' = "init_state w_two_members"]
    a1 r1 sim_getChats a3 r3 a4 a5 r4 ca cr
  show ?thesis by simp
qed

text \<open>
  C2 (as amended). For a target whose direct add fails (the call is rejected, the re-query
  is rejected, or the re-query does not show the participant): with no usable invite code
  the entry is \<^verbatim>\<open>failed\<close> / \<^verbatim>\<open>none\<close> and carries the error of the direct add; with an
  invite code and a delivered invite message the entry is \<^verbatim>\<open>invited\<close>; with an invite code
  and a rejected invite message the entry is \<^verbatim>\<open>failed\<close> / \<^verbatim>\<open>error\<close> and carries the error
  of the invite message, the one the outer catch receives.
\<close>

theorem C2_fallback_outcomes:
  "await (GetChatById gid) (getChatById cl gid) s = (Inr updatedGroup, s1) \<and>
   \<not> in_group (participantId_of p) updatedGroup \<and>
   direct_add cl gid p (participantId_of p) s1 = (Inl addError, s2)
   \<longrightarrow>
     (\<not> truthy groupInviteCode
        \<longrightarrow> results (add_iteration cl gid groupInviteCode INVITE_MESSAGE n i p s)
              = results s @ [(entry p ''failed'')\<lparr>method_used := Some ''none'', error := Some addError\<rparr>])
   \<and> (truthy groupInviteCode \<and>
        sendMessage cl (participantId_of p)
          (inviteMessage_of INVITE_MESSAGE (inviteLink_of groupInviteCode)) (world s2) = (Inr u, w3)
        \<longrightarrow> results (add_iteration cl gid groupInviteCode INVITE_MESSAGE n i p s)
              = results s @ [(entry p ''invited'')\<lparr>method_used := Some ''invite_link'',
                               inviteLink := Some (inviteLink_of groupInviteCode)\<rparr>])
   \<and> (truthy groupInviteCode \<and>
        sendMessage cl (participantId_of p)
          (inviteMessage_of INVITE_MESSAGE (inviteLink_of groupInviteCode)) (world s2)
          = (Inl fallbackError, w3)
        \<longrightarrow> results (add_iteration cl gid groupInviteCode INVITE_MESSAGE n i p s)
              = results s @ [(entry p ''failed'')\<lparr>method_used := Some ''error'',
                               error := Some fallbackError\<rparr>])"
proof (intro impI)
  assume h: "await (GetChatById gid) (getChatById cl gid) s = (Inr updatedGroup, s1) \<and>
   \<not> in_group (participantId_of p) updatedGroup \<and>
   direct_add cl gid p (participantId_of p) s1 = (Inl addError, s2)"
  then have r1: "results s1 = results s"
    by (auto simp: await_def split: prod.splits)
  from h have r2: "results s2 = results s1"
    using direct_add_Inl(1) by blast
  from h have it: "add_iteration cl gid groupInviteCode INVITE_MESSAGE n i p s =
      (case invite_fallback cl groupInviteCode INVITE_MESSAGE p (participantId_of p) addError s2 of
         (Inr u, s3) \<Rightarrow> pace BETWEEN_ADDS i n s3
       | (Inl e, s3) \<Rightarrow> add_catch i n p e s3)"
    by (simp add: add_iteration_def)
  show "(\<not> truthy groupInviteCode
        \<longrightarrow> results (add_iteration cl gid groupInviteCode INVITE_MESSAGE n i p s)
              = results s @ [(entry p ''failed'')\<lparr>method_used := Some ''none'', error := Some addError\<rparr>])
   \<and> (truthy groupInviteCode \<and>
        sendMessage cl (participantId_of p)
          (inviteMessage_of INVITE_MESSAGE (inviteLink_of groupInviteCode)) (world s2) = (Inr u, w3)
        \<longrightarrow> results (add_iteration cl gid groupInviteCode INVITE_MESSAGE n i p s)
              = results s @ [(entry p ''invited'')\<lparr>method_used := Some ''invite_link'',
                               inviteLink := Some (inviteLink_of groupInviteCode)\<rparr>])
   \<and> (truthy groupInviteCode \<and>
        sendMessage cl (participantId_of p)
          (inviteMessage_of INVITE_MESSAGE (inviteLink_of groupInviteCode)) (world s2)
          = (Inl fallbackError, w3)
        \<longrightarrow> results (add_iteration cl gid groupInviteCode INVITE_MESSAGE n i p s)
              = results s @ [(entry p ''failed'')\<lparr>method_used := Some ''error'',
                               error := Some fallbackError\<rparr>])"
    unfolding it
    by (simp add: invite_fallback_def Let_def await_def add_catch_results r1 r2)
qed

text \<open>
  The claim as first stated fails where the invite message is rejected: the direct add
  failed with \<^verbatim>\<open>add rejected\<close>, yet the entry carries \<^verbatim>\<open>send rejected\<close>.
\<close>

theorem C2_counterexample:
  "fst (addParticipants demo_client TARGET_GROUP_ID_add [''1111@c.us''] w_invite_broken)
     = Inl ''add rejected''
   \<and> map status
        (results (snd (addParticipantsToGroup demo_client ''hello'' [''+1111''] w_invite_broken)))
       = [''failed'']
   \<and> map error
        (results (snd (addParticipantsToGroup demo_client ''hello'' [''+1111''] w_invite_broken)))
       = [Some ''send rejected'']"
  by code_simp

text \<open>C2 on three sessions: no invite code, invite delivered, invite rejected.\<close>

theorem C2_witness:
  "results (add_iteration demo_client TARGET_GROUP_ID_add None ''hello'' 1 0 ''+1111''
      (init_state w_no_invite))
     = [(entry ''+1111'' ''failed'')\<lparr>method_used := Some ''none'', error := Some ''add rejected''\<rparr>]
   \<and> results (add_iteration demo_client TARGET_GROUP_ID_add (Some ''abc'') ''hello'' 1 0 ''+1111''
      (init_state w_invite_ok))
     = [(entry ''+1111'' ''invited'')\<lparr>method_used := Some ''invite_link'',
          inviteLink := Some ''https://chat.whatsapp.com/abc''\<rparr>]
   \<and> results (add_iteration demo_client TARGET_GROUP_ID_add (Some ''abc'') ''hello'' 1 0 ''+1111''
      (init_state w_invite_broken))
     = [(entry ''+1111'' ''failed'')\<lparr>method_used := Some ''error'', error := Some ''send rejected''\<rparr>]"
proof -
  note sim = sim_defs w_no_invite_def w_invite_ok_def w_invite_broken_def
  let ?G = TARGET_GROUP_ID_add
  let ?s1 = "\<lambda>w. (init_state w)\<lparr>events := [GetChatById ?G]\<rparr>"
  let ?d = "\<lambda>w. direct_add demo_client ?G ''+1111'' (participantId_of ''+1111'') (?s1 w)"
  have pre: "await (GetChatById ?G) (getChatById demo_client ?G) (init_state w_no_invite)
               = (Inr (sim_group w_no_invite), ?s1 w_no_invite)"
    "await (GetChatById ?G) (getChatById demo_client ?G) (init_state w_invite_ok)
               = (Inr (sim_group w_invite_ok), ?s1 w_invite_ok)"
    "await (GetChatById ?G) (getChatById demo_client ?G) (init_state w_invite_broken)
               = (Inr (sim_group w_invite_broken), ?s1 w_invite_broken)"
    by (rule sim_precheck, simp add: sim)+
  have absent: "\<not> in_group (participantId_of ''+1111'') (sim_group w_no_invite)"
    "\<not> in_group (participantId_of ''+1111'') (sim_group w_invite_ok)"
    "\<not> in_group (participantId_of ''+1111'') (sim_group w_invite_broken)"
    by (simp_all add: in_group_def participantId_of_def sim)
  have "fst (?d w_no_invite) = Inl ''add rejected''" "fst (?d w_invite_ok) = Inl ''add rejected''"
    "fst (?d w_invite_broken) = Inl ''add rejected''"
    by (simp_all add: sim run_defs)
  then have d: "?d w_no_invite = (Inl ''add rejected'', snd (?d w_no_invite))"
    "?d w_invite_ok = (Inl ''add rejected'', snd (?d w_invite_ok))"
    "?d w_invite_broken = (Inl ''add rejected'', snd (?d w_invite_broken))"
    by (simp_all add: prod_eq_iff)
  have w: "world (snd (?d w_invite_ok)) = w_invite_ok"
    "world (snd (?d w_invite_broken)) = w_invite_broken"
    by (simp_all add: sim run_defs)
  have sent: "sendMessage demo_client (participantId_of ''+1111'')
                (inviteMessage_of ''hello'' (inviteLink_of (Some ''abc''))) w_invite_ok
              = (Inr (), w_invite_ok)"
    and rejected: "sendMessage demo_client (participantId_of ''+1111'')
                (inviteMessage_of ''hello'' (inviteLink_of (Some ''abc''))) w_invite_broken
              = (Inl ''send rejected'', w_invite_broken)"
    by (simp_all add: participantId_of_def sim)
  have link: "inviteLink_of (Some ''abc'') = ''https://chat.whatsapp.com/abc''"
    by (simp add: inviteLink_of_def)
  from C2_fallback_outcomes
    [where cl = demo_client and gid = ?G and s = "init_state w_no_invite"
       and updatedGroup = "sim_group w_no_invite" and ?s1.0 = "?s1 w_no_invite" and p = "''+1111''"
       and addError = "''add rejected''" and ?s2.0 = "snd (?d w_no_invite)"
       and groupInviteCode = None and INVITE_MESSAGE = "''hello''" and n = 1 and i = 0]
    pre(1) absent(1) d(1)
  have a: "results (add_iteration demo_client ?G None ''hello'' 1 0 ''+1111'' (init_state w_no_invite))
     = [(entry ''+1111'' ''failed'')\<lparr>method_used := Some ''none'', error := Some ''add rejected''\<rparr>]"
    by simp
  from C2_fallback_outcomes
    [where cl = demo_client and gid = ?G and s = "init_state w_invite_ok"
       and updatedGroup = "sim_group w_invite_ok" and ?s1.0 = "?s1 w_invite_ok" and p = "''+1111''"
       and addError = "''add rejected''" and ?s2.0 = "snd (?d w_invite_ok)"
       and groupInviteCode = "Some ''abc''" and INVITE_MESSAGE = "''hello''" and n = 1 and i = 0
       and u = "()" and ?w3.0 = w_invite_ok]
    pre(2) absent(2) d(2) w(1) sent link
  have b: "results (add_iteration demo_client ?G (Some ''abc'') ''hello'' 1 0 ''+1111''
      (init_state w_invite_ok))
     = [(entry ''+1111'' ''invited'')\<lparr>method_used := Some ''invite_link'',
          inviteLink := Some ''https://chat.whatsapp.com/abc''\<rparr>]"
    by simp
  from C2_fallback_outcomes
    [where cl = demo_client and gid = ?G and s = "init_state w_invite_broken"
       and updatedGroup = "sim_group w_invite_broken" and ?s1.0 = "?s1 w_invite_broken"
       and p = "''+1111''"
       and addError = "''add rejected''" and ?s2.0 = "snd (?d w_invite_broken)"
       and groupInviteCode = "Some ''abc''" and INVITE_MESSAGE = "''hello''" and n = 1 and i = 0
       and fallbackError = "''send rejected''" and ?w3.0 = w_invite_broken]
    pre(3) absent(3) d(3) w(2) rejected link
  have c: "results (add_iteration demo_client ?G (Some ''abc'') ''hello'' 1 0 ''+1111''
      (init_state w_invite_broken))
     = [(entry ''+1111'' ''failed'')\<lparr>method_used := Some ''error'', error := Some ''send rejected''\<rparr>]"
    by simp
  from a b c show ?thesis by simp
qed

text \<open>
  C3. When a removal went through and the re-query confirms it, a rejected notification
  message leaves the entry at \<^verbatim>\<open>removed\<close> with \<^verbatim>\<open>notificationSent: false\<close> (the message of
  the error is kept under \<^verbatim>\<open>msgError\<close>); \<^verbatim>\<open>successCount\<close> is incremented, \<^verbatim>\<open>failCount\<close> is
  not, and the wait that follows is the one between removals.
\<close>

theorem C3_notification_failure_keeps_removed:
  "find (\<lambda>q. serialized q = participantId_of p) (participants g) = Some currentParticipant \<and>
   removeParticipants cl (chat_id g) [participantId_of p] (world s) = (Inr removalResult, w1) \<and>
   getChatById cl (chat_id g) w1 = (Inr updatedGroup, w2) \<and>
   \<not> in_group (participantId_of p) updatedGroup \<and>
   sendMessage cl (participantId_of p) REMOVAL_MESSAGE w2 = (Inl msgErr, w3)
   \<longrightarrow> results (remove_iteration cl g REMOVAL_MESSAGE n i p s)
         = results s @ [(entry p ''removed'')\<lparr>notificationSent := Some False, msgError := Some msgErr\<rparr>]
     \<and> successCount (remove_iteration cl g REMOVAL_MESSAGE n i p s) = successCount s + 1
     \<and> failCount (remove_iteration cl g REMOVAL_MESSAGE n i p s) = failCount s
     \<and> events (remove_iteration cl g REMOVAL_MESSAGE n i p s)
         = events s @ [RemoveParticipants (chat_id g) [participantId_of p], Delay VERIFICATION,
                       GetChatById (chat_id g), Delay PRE_NOTIFICATION,
                       SendMessage (participantId_of p) REMOVAL_MESSAGE]
             @ (if i < n - 1 then [Delay BETWEEN_REMOVALS] else [])"
  by (simp add: remove_iteration_def Let_def await_def sleep_def pace_def push_def)

text \<open>C3 on a session where the removal works and the notification is rejected.\<close>

theorem C3_witness:
  "results (remove_iteration demo_client (sim_group w_unreachable) ''bye'' 2 0 ''+1111''
      (init_state w_unreachable))
     = [(entry ''+1111'' ''removed'')\<lparr>notificationSent := Some False, msgError := Some ''send rejected''\<rparr>]
   \<and> successCount (remove_iteration demo_client (sim_group w_unreachable) ''bye'' 2 0 ''+1111''
      (init_state w_unreachable)) = 1
   \<and> failCount (remove_iteration demo_client (sim_group w_unreachable) ''bye'' 2 0 ''+1111''
      (init_state w_unreachable)) = 0
   \<and> events (remove_iteration demo_client (sim_group w_unreachable) ''bye'' 2 0 ''+1111''
      (init_state w_unreachable))
     = [RemoveParticipants TARGET_GROUP_ID_remove [''1111@c.us''], Delay VERIFICATION,
        GetChatById TARGET_GROUP_ID_remove, Delay PRE_NOTIFICATION,
        SendMessage ''1111@c.us'' ''bye'', Delay BETWEEN_REMOVALS]"
proof -
  note sim = sim_defs w_unreachable_def w_two_members_def
  let ?g = "sim_group w_unreachable"
  let ?w1 = "snd (removeParticipants demo_client (chat_id ?g) [participantId_of ''+1111''] w_unreachable)"
  have h1: "find (\<lambda>q. serialized q = participantId_of ''+1111'') (participants ?g)
              = Some (sim_member ''1111@c.us'')"
    by (simp add: participantId_of_def sim)
  have "fst (removeParticipants demo_client (chat_id ?g) [participantId_of ''+1111''] w_unreachable)
          = Inr True"
    by (simp add: participantId_of_def sim)
  then have h2: "removeParticipants demo_client (chat_id ?g) [participantId_of ''+1111'']
                   (world (init_state w_unreachable)) = (Inr True, ?w1)"
    by (simp add: prod_eq_iff)
  have h3: "getChatById demo_client (chat_id ?g) ?w1 = (Inr (sim_group ?w1), ?w1)"
    by (simp add: participantId_of_def sim)
  have h4: "\<not> in_group (participantId_of ''+1111'') (sim_group ?w1)"
    by (simp add: in_group_def participantId_of_def sim)
  have h5: "sendMessage demo_client (participantId_of ''+1111'') ''bye'' ?w1 = (Inl ''send rejected'', ?w1)"
    by (simp add: participantId_of_def sim)
  have ids: "chat_id ?g = TARGET_GROUP_ID_remove" "participantId_of ''+1111'' = ''1111@c.us''"
    by (simp_all add: participantId_of_def sim)
  from C3_notification_failure_keeps_removed
    [where p = "''+1111''" and g = ?g and currentParticipant = "sim_member ''1111@c.us''"
       and cl = demo_client and s = "init_state w_unreachable" and removalResult = True
       and ?w1.0 = ?w1 and updatedGroup = "sim_group ?w1" and ?w2.0 = ?w1
       and REMOVAL_MESSAGE = "''bye''" and msgErr = "''send rejected''" and ?w3.0 = ?w1
       and n = 2 and i = 0]
    h1 h2 h3 h4 h5
  show ?thesis by (simp add: ids init_state_def)
qed




text \<open>
  C5 says that after a target that ends as \<^verbatim>\<open>failed\<close> the wait before the next target is
  \<^verbatim>\<open>DELAYS.AFTER_FAILURE\<close>. The add script departs from it where the direct add fails and
  there is no invite code. Evaluated on two targets, no invite code, the direct add of the
  first one rejected: the first entry is \<^verbatim>\<open>failed\<close> and the wait before the second target
  is \<^verbatim>\<open>BETWEEN_ADDS\<close>, not \<^verbatim>\<open>AFTER_FAILURE\<close>.
\<close>

theorem C5_failed_without_invite_waits_between_adds:
  "map status
     (results (snd (addParticipantsToGroup demo_client ''hello'' [''+1111'', ''+2222''] w_no_invite)))
     = [''failed'', ''added'']
   \<and> events (snd (addParticipantsToGroup demo_client ''hello'' [''+1111'', ''+2222''] w_no_invite))
     = [GetChats, GetInviteCode TARGET_GROUP_ID_add,
        GetChatById TARGET_GROUP_ID_add, AddParticipants TARGET_GROUP_ID_add [''1111@c.us''],
        Delay BETWEEN_ADDS,
        GetChatById TARGET_GROUP_ID_add, AddParticipants TARGET_GROUP_ID_add [''2222@c.us''],
        Delay VERIFICATION, GetChatById TARGET_GROUP_ID_add]
   \<and> waited (events (snd (addParticipantsToGroup demo_client ''hello'' [''+1111'', ''+2222'']
        w_no_invite)))
     = DELAYS BETWEEN_ADDS + DELAYS VERIFICATION"
  by code_simp

text \<open>
  C6. When the acting account is not an admin of the target group (it is not among the
  participants, or its \<^verbatim>\<open>isAdmin\<close> flag is false), either script returns right after the
  check: the only client call made is \<^verbatim>\<open>getChats\<close>, so there is no mutation, invite,
  notification or timer wait, \<^verbatim>\<open>results\<close> is empty and nothing is written.
\<close>

theorem C6_not_admin_aborts:
  "(getChats cl w = (Inr chats, w1) \<and> find_group TARGET_GROUP_ID_add chats = Some g \<and>
      \<not> is_admin (info_wid cl) g
      \<longrightarrow> addParticipantsToGroup cl INVITE_MESSAGE participants_to_add w =
            (NotAdmin, (init_state w1)\<lparr>events := [GetChats]\<rparr>))
   \<and> (getChats cl' w' = (Inr chats', w1') \<and> find_group TARGET_GROUP_ID_remove chats' = Some g' \<and>
      \<not> is_admin (info_wid cl') g'
      \<longrightarrow> removeInactiveParticipants cl' REMOVAL_MESSAGE inactive_participants w' =
            (NotAdmin, (init_state w1')\<lparr>events := [GetChats]\<rparr>))"
  by (simp add: addParticipantsToGroup_def add_prepare_def removeInactiveParticipants_def
      remove_prepare_def await_def init_state_def)

text \<open>C6 on two sessions whose account is a plain member of the group.\<close>

theorem C6_witness:
  "addParticipantsToGroup demo_client ''hello'' [''+1111'', ''+2222''] w_not_admin_add
     = (NotAdmin, (init_state w_not_admin_add)\<lparr>events := [GetChats]\<rparr>)
   \<and> removeInactiveParticipants demo_client ''bye'' [''+1111'', ''+2222''] w_not_admin_remove
     = (NotAdmin, (init_state w_not_admin_remove)\<lparr>events := [GetChats]\<rparr>)"
proof -
  note sim = sim_defs plain_me_def w_not_admin_add_def w_not_admin_remove_def
  have ga: "find_group TARGET_GROUP_ID_add [sim_group w_not_admin_add]
              = Some (sim_group w_not_admin_add)"
    and gr: "find_group TARGET_GROUP_ID_remove [sim_group w_not_admin_remove]
              = Some (sim_group w_not_admin_remove)"
    by (simp_all add: find_group_def sim)
  have na: "\<not> is_admin (info_wid demo_client) (sim_group w_not_admin_add)"
    and nr: "\<not> is_admin (info_wid demo_client) (sim_group w_not_admin_remove)"
    by (simp_all add: is_admin_def sim)
  from C6_not_admin_aborts
    [where cl = demo_client and w = w_not_admin_add and chats = "[sim_group w_not_admin_add]"
       and ?w1.0 = w_not_admin_add and g = "sim_group w_not_admin_add"
       and INVITE_MESSAGE = "''hello''" and participants_to_add = "[''+1111'', ''+2222'']"
       and cl' = demo_client and w' = w_not_admin_remove
       and chats' = "[sim_group w_not_admin_remove]" and w1' = w_not_admin_remove
       and g' = "sim_group w_not_admin_remove" and REMOVAL_MESSAGE = "''bye''"
       and inactive_participants = "[''+1111'', ''+2222'']"]
    sim_getChats ga gr na nr
  show ?thesis by simp
qed

text \<open>
  C7 (as amended). Take a session in which every read of the group shows every supplied
  number already in the wanted state by participant id (in the group for adds, absent for
  removals), which is what the verified mutations of a first run establish. Running the
  job against it makes no mutation, invite or notification call and no timer wait, and
  every entry recorded is \<^verbatim>\<open>already_in_group\<close> (\<^verbatim>\<open>already_removed\<close>). Entries are recorded
  only for the numbers that pass the filter before the loop, which compares the number
  with \<^verbatim>\<open>+\<close> and the user part of each participant: a number the filter recognises gets
  no entry, and when the filter lets no number through the script returns without any
  entry or file. For adds, \<open>I\<close> is any set of session states that holds the state after
  \<^verbatim>\<open>getChats\<close>, is closed under the reads the run makes (\<^verbatim>\<open>getInviteCode\<close>, \<^verbatim>\<open>getChatById\<close>)
  and in which every \<^verbatim>\<open>getChatById\<close> shows all the numbers in the group; the removal
  script reads the group only once, through \<^verbatim>\<open>getChats\<close>. The last two parts say what a
  first run has seen when it records \<^verbatim>\<open>added\<close> or \<^verbatim>\<open>removed\<close>: a verification read with
  the participant present, respectively absent.
\<close>

theorem C7_second_run_only_already_satisfied:
  "(getChats cl w = (Inr chats, w1) \<and> find_group TARGET_GROUP_ID_add chats = Some g \<and>
      is_admin (info_wid cl) g \<and> I w1 \<and>
      (\<forall>v. I v \<longrightarrow> I (snd (getInviteCode cl (chat_id g) v)) \<and> I (snd (getChatById cl (chat_id g) v))) \<and>
      (\<forall>v. I v \<longrightarrow>
         (case fst (getChatById cl (chat_id g) v) of
            Inl e \<Rightarrow> False
          | Inr g2 \<Rightarrow> list_all (\<lambda>p. in_group (participantId_of p) g2) participants_to_add))
      \<longrightarrow> results (snd (addParticipantsToGroup cl INVITE_MESSAGE participants_to_add w))
            = map (\<lambda>p. (entry p ''already_in_group'')\<lparr>method_used := Some ''skipped''\<rparr>)
                (filter (\<lambda>p. p \<notin> set (currentParticipants g)) participants_to_add)
          \<and> events (snd (addParticipantsToGroup cl INVITE_MESSAGE participants_to_add w))
            = (if filter (\<lambda>p. p \<notin> set (currentParticipants g)) participants_to_add = []
               then [GetChats]
               else [GetChats, GetInviteCode (chat_id g)]
                    @ replicate
                        (length (filter (\<lambda>p. p \<notin> set (currentParticipants g)) participants_to_add))
                        (GetChatById (chat_id g)))
          \<and> fst (addParticipantsToGroup cl INVITE_MESSAGE participants_to_add w)
            = (if filter (\<lambda>p. p \<notin> set (currentParticipants g)) participants_to_add = []
               then NothingToDo else Completed))
   \<and> (getChats cl' w' = (Inr chats', w1') \<and> find_group TARGET_GROUP_ID_remove chats' = Some g' \<and>
      is_admin (info_wid cl') g' \<and>
      list_all (\<lambda>p. \<not> in_group (participantId_of p) g') inactive_participants
      \<longrightarrow> results (snd (removeInactiveParticipants cl' REMOVAL_MESSAGE inactive_participants w'))
            = map (\<lambda>p. (entry p ''already_removed'')\<lparr>notificationSent := Some False\<rparr>)
                (filter (\<lambda>p. p \<in> set (currentParticipants g')) inactive_participants)
          \<and> events (snd (removeInactiveParticipants cl' REMOVAL_MESSAGE inactive_participants w'))
            = [GetChats]
          \<and> fst (removeInactiveParticipants cl' REMOVAL_MESSAGE inactive_participants w')
            = (if filter (\<lambda>p. p \<in> set (currentParticipants g')) inactive_participants = []
               then NothingToDo else Completed))
   \<and> (direct_add cl gid q (participantId_of q) t = (Inr u, t2)
      \<longrightarrow> (case fst (getChatById cl gid (snd (addParticipants cl gid [participantId_of q] (world t)))) of
            Inl e \<Rightarrow> False
          | Inr verifyGroup \<Rightarrow> in_group (participantId_of q) verifyGroup))
   \<and> (status (last (results (remove_iteration cl'' g'' REMOVAL_MESSAGE n' i' q' t'))) = ''removed''
      \<longrightarrow> (case fst (getChatById cl'' (chat_id g'')
                      (snd (removeParticipants cl'' (chat_id g'') [participantId_of q'] (world t')))) of
            Inl e \<Rightarrow> False
          | Inr updatedGroup \<Rightarrow> \<not> in_group (participantId_of q') updatedGroup))"
proof (intro conjI impI)
  let ?toAdd = "filter (\<lambda>p. p \<notin> set (currentParticipants g)) participants_to_add"
  let ?already = "filter (\<lambda>p. p \<in> set (currentParticipants g)) participants_to_add"
  let ?r = "addParticipantsToGroup cl INVITE_MESSAGE participants_to_add w"
  let ?gid = "chat_id g"
  assume h: "getChats cl w = (Inr chats, w1) \<and> find_group TARGET_GROUP_ID_add chats = Some g \<and>
      is_admin (info_wid cl) g \<and> I w1 \<and>
      (\<forall>v. I v \<longrightarrow> I (snd (getInviteCode cl (chat_id g) v)) \<and> I (snd (getChatById cl (chat_id g) v))) \<and>
      (\<forall>v. I v \<longrightarrow>
         (case fst (getChatById cl (chat_id g) v) of
            Inl e \<Rightarrow> False
          | Inr g2 \<Rightarrow> list_all (\<lambda>p. in_group (participantId_of p) g2) participants_to_add))"
  then have gc: "getChats cl w = (Inr chats, w1)" and fg: "find_group TARGET_GROUP_ID_add chats = Some g"
    and ad: "is_admin (info_wid cl) g" and i1: "I w1"
    and inv1: "\<And>v. I v \<Longrightarrow> I (snd (getInviteCode cl ?gid v))"
    and inv2: "\<And>v. I v \<Longrightarrow> I (snd (getChatById cl ?gid v))"
    and sat0: "\<And>v. I v \<Longrightarrow>
         (case fst (getChatById cl ?gid v) of
            Inl e \<Rightarrow> False
          | Inr g2 \<Rightarrow> list_all (\<lambda>p. in_group (participantId_of p) g2) participants_to_add)"
    by simp_all
  have sat: "\<exists>g2. fst (getChatById cl ?gid v) = Inr g2 \<and> in_group (participantId_of p) g2"
    if "I v" and "p \<in> set ?toAdd" for v p
    using sat0 [OF that(1)] that(2) by (auto simp: list_all_iff split: sum.splits)
  have all: "results (snd ?r)
            = map (\<lambda>p. (entry p ''already_in_group'')\<lparr>method_used := Some ''skipped''\<rparr>) ?toAdd
          \<and> events (snd ?r)
            = (if ?toAdd = [] then [GetChats]
               else [GetChats, GetInviteCode ?gid] @ replicate (length ?toAdd) (GetChatById ?gid))
          \<and> fst ?r = (if ?toAdd = [] then NothingToDo else Completed)"
  proof (cases "?toAdd = []")
    case True
    with gc fg ad have "?r = (NothingToDo, (init_state w1)\<lparr>events := [GetChats]\<rparr>)"
      by (simp add: addParticipantsToGroup_def add_prepare_def await_def init_state_def)
    with True show ?thesis by (simp add: init_state_def)
  next
    case False
    let ?s2 = "(init_state (snd (getInviteCode cl ?gid w1)))\<lparr>events := [GetChats, GetInviteCode ?gid]\<rparr>"
    obtain code where prep: "add_prepare cl participants_to_add (init_state w) =
        (Inr (g, ?toAdd, ?already, code), ?s2)"
      using add_prepare_state [OF gc fg ad False] by blast
    then have r: "?r = (Completed, add_save g ?toAdd ?already
        (add_loop cl ?gid code INVITE_MESSAGE (length ?toAdd) 0 ?toAdd ?s2))"
      by (simp add: addParticipantsToGroup_def)
    have "I (world ?s2)" using inv1 [OF i1] by (simp add: init_state_def)
    from add_loop_satisfied [of I cl ?gid ?toAdd ?s2 code INVITE_MESSAGE "length ?toAdd" 0,
        OF inv2 sat this]
    show ?thesis using False by (simp add: r init_state_def)
  qed
  from all show "results (snd ?r)
            = map (\<lambda>p. (entry p ''already_in_group'')\<lparr>method_used := Some ''skipped''\<rparr>) ?toAdd"
    by blast
  from all show "events (snd ?r)
            = (if ?toAdd = [] then [GetChats]
               else [GetChats, GetInviteCode ?gid] @ replicate (length ?toAdd) (GetChatById ?gid))"
    by blast
  from all show "fst ?r = (if ?toAdd = [] then NothingToDo else Completed)"
    by blast
next
  let ?toRemove = "filter (\<lambda>p. p \<in> set (currentParticipants g')) inactive_participants"
  let ?notIn = "filter (\<lambda>p. p \<notin> set (currentParticipants g')) inactive_participants"
  let ?r = "removeInactiveParticipants cl' REMOVAL_MESSAGE inactive_participants w'"
  assume h: "getChats cl' w' = (Inr chats', w1') \<and> find_group TARGET_GROUP_ID_remove chats' = Some g' \<and>
      is_admin (info_wid cl') g' \<and>
      list_all (\<lambda>p. \<not> in_group (participantId_of p) g') inactive_participants"
  then have gc: "getChats cl' w' = (Inr chats', w1')"
    and fg: "find_group TARGET_GROUP_ID_remove chats' = Some g'"
    and ad: "is_admin (info_wid cl') g'"
    and absent: "list_all (\<lambda>p. \<not> in_group (participantId_of p) g') ?toRemove"
    by (simp_all add: list_all_iff)
  have all: "results (snd ?r)
            = map (\<lambda>p. (entry p ''already_removed'')\<lparr>notificationSent := Some False\<rparr>) ?toRemove
          \<and> events (snd ?r) = [GetChats]
          \<and> fst ?r = (if ?toRemove = [] then NothingToDo else Completed)"
  proof (cases "?toRemove = []")
    case True
    with gc fg ad have "?r = (NothingToDo, (init_state w1')\<lparr>events := [GetChats]\<rparr>)"
      by (simp add: removeInactiveParticipants_def remove_prepare_def await_def init_state_def)
    with True show ?thesis by (simp add: init_state_def)
  next
    case False
    let ?s1 = "(init_state w1')\<lparr>events := [GetChats]\<rparr>"
    from remove_prepare_state [OF gc fg ad False]
    have r: "?r = (Completed, remove_save g' ?toRemove ?notIn
        (remove_loop cl' g' REMOVAL_MESSAGE (length ?toRemove) 0 ?toRemove ?s1))"
      by (simp add: removeInactiveParticipants_def)
    from remove_loop_satisfied [OF absent, of cl' REMOVAL_MESSAGE "length ?toRemove" 0 ?s1]
    show ?thesis using False by (simp add: r init_state_def)
  qed
  from all show "results (snd ?r)
            = map (\<lambda>p. (entry p ''already_removed'')\<lparr>notificationSent := Some False\<rparr>) ?toRemove"
    by blast
  from all show "events (snd ?r) = [GetChats]" by blast
  from all show "fst ?r = (if ?toRemove = [] then NothingToDo else Completed)" by blast
next
  assume "direct_add cl gid q (participantId_of q) t = (Inr u, t2)"
  then show "case fst (getChatById cl gid (snd (addParticipants cl gid [participantId_of q] (world t)))) of
            Inl e \<Rightarrow> False
          | Inr verifyGroup \<Rightarrow> in_group (participantId_of q) verifyGroup"
    by (auto simp: direct_add_def await_def sleep_def split: prod.splits sum.splits if_splits)
next
  assume "status (last (results (remove_iteration cl'' g'' REMOVAL_MESSAGE n' i' q' t'))) = ''removed''"
  then show "case fst (getChatById cl'' (chat_id g'')
                      (snd (removeParticipants cl'' (chat_id g'') [participantId_of q'] (world t')))) of
            Inl e \<Rightarrow> False
          | Inr updatedGroup \<Rightarrow> \<not> in_group (participantId_of q') updatedGroup"
    by (auto simp: remove_iteration_def Let_def await_def sleep_def remove_catch_def
        split: prod.splits sum.splits option.splits if_splits)
qed

text \<open>
  The claim as first stated fails: a first run adds both numbers; the second run against
  the resulting session records no \<^verbatim>\<open>already_in_group\<close> entry for them, it records nothing.
\<close>

theorem C7_counterexample:
  "map status (results (snd (addParticipantsToGroup demo_client ''hello'' [''+1111'', ''+2222'']
       w_empty_group))) = [''added'', ''added'']
   \<and> fst (addParticipantsToGroup demo_client ''hello'' [''+1111'', ''+2222'']
       (world (snd (addParticipantsToGroup demo_client ''hello'' [''+1111'', ''+2222''] w_empty_group))))
     = NothingToDo
   \<and> results (snd (addParticipantsToGroup demo_client ''hello'' [''+1111'', ''+2222'']
       (world (snd (addParticipantsToGroup demo_client ''hello'' [''+1111'', ''+2222''] w_empty_group)))))
     = []"
  by code_simp

text \<open>
  C7 on two sessions, each the state left by a first run: an add job in which one number
  carries the \<^verbatim>\<open>+\<close> prefix and one does not, and a removal job in which one member is listed
  under an id that the pre-check does not match.
\<close>

theorem C7_witness:
  "results (snd (addParticipantsToGroup demo_client ''hello'' [''+1111'', ''2222'']
      (world (snd (addParticipantsToGroup demo_client ''hello'' [''+1111'', ''2222''] w_empty_group)))))
     = [(entry ''2222'' ''already_in_group'')\<lparr>method_used := Some ''skipped''\<rparr>]
   \<and> events (snd (addParticipantsToGroup demo_client ''hello'' [''+1111'', ''2222'']
      (world (snd (addParticipantsToGroup demo_client ''hello'' [''+1111'', ''2222''] w_empty_group)))))
     = [GetChats, GetInviteCode TARGET_GROUP_ID_add, GetChatById TARGET_GROUP_ID_add]
   \<and> fst (addParticipantsToGroup demo_client ''hello'' [''+1111'', ''2222'']
      (world (snd (addParticipantsToGroup demo_client ''hello'' [''+1111'', ''2222''] w_empty_group))))
     = Completed
   \<and> results (snd (removeInactiveParticipants demo_client ''bye'' [''+1111'', ''+2222'']
      (world (snd (removeInactiveParticipants demo_client ''bye'' [''+1111'', ''+2222''] w_lid_member)))))
     = [(entry ''+2222'' ''already_removed'')\<lparr>notificationSent := Some False\<rparr>]
   \<and> events (snd (removeInactiveParticipants demo_client ''bye'' [''+1111'', ''+2222'']
      (world (snd (removeInactiveParticipants demo_client ''bye'' [''+1111'', ''+2222''] w_lid_member)))))
     = [GetChats]
   \<and> fst (removeInactiveParticipants demo_client ''bye'' [''+1111'', ''+2222'']
      (world (snd (removeInactiveParticipants demo_client ''bye'' [''+1111'', ''+2222''] w_lid_member))))
     = Completed
   \<and> in_group ''1111@c.us''
       (sim_group (snd (addParticipants demo_client TARGET_GROUP_ID_add [''1111@c.us''] w_empty_group)))
   \<and> \<not> in_group ''1111@c.us''
       (sim_group (snd (removeParticipants demo_client TARGET_GROUP_ID_remove [''1111@c.us'']
          w_two_members)))"
proof -
  note sim = sim_defs w_empty_group_def w_two_members_def w_lid_member_def
  let ?G = TARGET_GROUP_ID_add
  let ?H = TARGET_GROUP_ID_remove
  let ?wa = "world (snd (addParticipantsToGroup demo_client ''hello'' [''+1111'', ''2222''] w_empty_group))"
  let ?wr = "world (snd (removeInactiveParticipants demo_client ''bye'' [''+1111'', ''+2222''] w_lid_member))"
  let ?I = "\<lambda>v. v = ?wa"
  have wa: "?wa = sim_world_of
      (add_group [admin_me, sim_member ''1111@c.us'', sim_member ''2222@c.us'']) None"
    by code_simp
  have wr: "?wr = sim_world_of
      (remove_group [admin_me, \<lparr>user = ''2222'', serialized = ''2222@lid'', isAdmin = False\<rparr>]) None"
    by code_simp
  have ga: "find_group ?G [sim_group ?wa] = Some (sim_group ?wa)"
    and gr: "find_group ?H [sim_group ?wr] = Some (sim_group ?wr)"
    unfolding wa wr by (simp_all add: find_group_def sim_defs)
  have aa: "is_admin (info_wid demo_client) (sim_group ?wa)"
    and ar: "is_admin (info_wid demo_client) (sim_group ?wr)"
    unfolding wa wr by (simp_all add: is_admin_def sim_defs)
  have ida: "chat_id (sim_group ?wa) = ?G" and idr: "chat_id (sim_group ?wr) = ?H"
    unfolding wa wr by (simp_all add: sim_defs)
  have inv: "\<forall>v. ?I v \<longrightarrow> ?I (snd (getInviteCode demo_client (chat_id (sim_group ?wa)) v))
                      \<and> ?I (snd (getChatById demo_client (chat_id (sim_group ?wa)) v))"
    by (simp add: demo_client_def sim_client_def split: option.splits)
  have read: "fst (getChatById demo_client (chat_id (sim_group ?wa)) ?wa) = Inr (sim_group ?wa)"
    by (simp add: demo_client_def sim_client_def)
  have "list_all (\<lambda>p. in_group (participantId_of p) (sim_group ?wa)) [''+1111'', ''2222'']"
    unfolding wa by (simp add: in_group_def participantId_of_def sim_defs)
  with read have sat: "\<forall>v. ?I v \<longrightarrow>
         (case fst (getChatById demo_client (chat_id (sim_group ?wa)) v) of
            Inl e \<Rightarrow> False
          | Inr g2 \<Rightarrow> list_all (\<lambda>p. in_group (participantId_of p) g2) [''+1111'', ''2222''])"
    by simp
  have absent: "list_all (\<lambda>p. \<not> in_group (participantId_of p) (sim_group ?wr)) [''+1111'', ''+2222'']"
    unfolding wr by (simp add: in_group_def participantId_of_def sim_defs)
  have fa: "filter (\<lambda>p. p \<notin> set (currentParticipants (sim_group ?wa))) [''+1111'', ''2222'']
              = [''2222'']"
    and fr: "filter (\<lambda>p. p \<in> set (currentParticipants (sim_group ?wr))) [''+1111'', ''+2222'']
              = [''+2222'']"
    unfolding wa wr by (simp_all add: currentParticipants_def sim_defs)
  have "fst (direct_add demo_client ?G ''+1111'' (participantId_of ''+1111'') (init_state w_empty_group))
          = Inr ()"
    by (simp add: sim run_defs)
  then have d: "direct_add demo_client ?G ''+1111'' (participantId_of ''+1111'') (init_state w_empty_group)
      = (Inr (), snd (direct_add demo_client ?G ''+1111'' (participantId_of ''+1111'')
                        (init_state w_empty_group)))"
    by (simp add: prod_eq_iff)
  have rm: "status (last (results (remove_iteration demo_client (sim_group w_two_members) ''bye'' 1 0
              ''+1111'' (init_state w_two_members)))) = ''removed''"
    by (simp add: sim run_defs)
  have reads: "fst (getChatById demo_client ?G
                 (snd (addParticipants demo_client ?G [participantId_of ''+1111''] w_empty_group)))
               = Inr (sim_group (snd (addParticipants demo_client ?G [participantId_of ''+1111'']
                        w_empty_group)))"
    "fst (getChatById demo_client (chat_id (sim_group w_two_members))
                 (snd (removeParticipants demo_client (chat_id (sim_group w_two_members))
                         [participantId_of ''+1111''] w_two_members)))
               = Inr (sim_group (snd (removeParticipants demo_client (chat_id (sim_group w_two_members))
                        [participantId_of ''+1111''] w_two_members)))"
    by (simp_all add: participantId_of_def sim)
  have ids: "participantId_of ''+1111'' = ''1111@c.us''" "chat_id (sim_group w_two_members) = ?H"
    by (simp_all add: participantId_of_def sim)
  from C7_second_run_only_already_satisfied
    [where cl = demo_client and w = ?wa and chats = "[sim_group ?wa]" and ?w1.0 = ?wa
       and g = "sim_group ?wa" and I = ?I and participants_to_add = "[''+1111'', ''2222'']"
       and INVITE_MESSAGE = "''hello''"
       and cl' = demo_client and w' = ?wr and chats' = "[sim_group ?wr]" and w1' = ?wr
       and g' = "sim_group ?wr" and inactive_participants = "[''+1111'', ''+2222'']"
       and REMOVAL_MESSAGE = "''bye''"
       and gid = ?G and q = "''+1111''" and t = "init_state w_empty_group" and u = "()"
       and ?t2.0 = "snd (direct_add demo_client ?G ''+1111'' (participantId_of ''+1111'')
                           (init_state w_empty_group))"
       and cl'' = demo_client and g'' = "sim_group w_two_members"
       and n' = 1 and i' = 0 and q' = "''+1111''" and t' = "init_state w_two_members"]
    sim_getChats ga gr aa ar inv sat absent fa fr d ida idr reads rm
  have a: "results (snd (addParticipantsToGroup demo_client ''hello'' [''+1111'', ''2222''] ?wa))
     = [(entry ''2222'' ''already_in_group'')\<lparr>method_used := Some ''skipped''\<rparr>]
   \<and> events (snd (addParticipantsToGroup demo_client ''hello'' [''+1111'', ''2222''] ?wa))
     = [GetChats, GetInviteCode ?G, GetChatById ?G]
   \<and> fst (addParticipantsToGroup demo_client ''hello'' [''+1111'', ''2222''] ?wa) = Completed
   \<and> results (snd (removeInactiveParticipants demo_client ''bye'' [''+1111'', ''+2222''] ?wr))
     = [(entry ''+2222'' ''already_removed'')\<lparr>notificationSent := Some False\<rparr>]
   \<and> events (snd (removeInactiveParticipants demo_client ''bye'' [''+1111'', ''+2222''] ?wr))
     = [GetChats]
   \<and> fst (removeInactiveParticipants demo_client ''bye'' [''+1111'', ''+2222''] ?wr) = Completed
   \<and> in_group ''1111@c.us''
       (sim_group (snd (addParticipants demo_client ?G [''1111@c.us''] w_empty_group)))
   \<and> \<not> in_group ''1111@c.us''
       (sim_group (snd (removeParticipants demo_client ?H [''1111@c.us''] w_two_members)))"
    by (simp add: ids)
  then show ?thesis by simp
qed

text \<open>
  C8 (as amended). When the admin check has passed and at least one supplied number is
  left by the filter, the run always reaches its end, whatever the client calls do: every
  rejected call has become an entry, every filtered number has its entry, in order, and
  the file written holds the whole \<^verbatim>\<open>results\<close> array.
\<close>

theorem C8_summary_persisted:
  "(getChats cl w = (Inr chats, w1) \<and> find_group TARGET_GROUP_ID_add chats = Some g \<and>
      is_admin (info_wid cl) g \<and>
      filter (\<lambda>p. p \<notin> set (currentParticipants g)) participants_to_add \<noteq> []
      \<longrightarrow> fst (addParticipantsToGroup cl INVITE_MESSAGE participants_to_add w) = Completed
          \<and> persisted_results (snd (addParticipantsToGroup cl INVITE_MESSAGE participants_to_add w))
              = Some (results (snd (addParticipantsToGroup cl INVITE_MESSAGE participants_to_add w)))
          \<and> map number (results (snd (addParticipantsToGroup cl INVITE_MESSAGE participants_to_add w)))
              = filter (\<lambda>p. p \<notin> set (currentParticipants g)) participants_to_add)
   \<and> (getChats cl' w' = (Inr chats', w1') \<and> find_group TARGET_GROUP_ID_remove chats' = Some g' \<and>
      is_admin (info_wid cl') g' \<and>
      filter (\<lambda>p. p \<in> set (currentParticipants g')) inactive_participants \<noteq> []
      \<longrightarrow> fst (removeInactiveParticipants cl' REMOVAL_MESSAGE inactive_participants w') = Completed
          \<and> persisted_results (snd (removeInactiveParticipants cl' REMOVAL_MESSAGE inactive_participants w'))
              = Some (results (snd (removeInactiveParticipants cl' REMOVAL_MESSAGE inactive_participants w')))
          \<and> map number (results (snd (removeInactiveParticipants cl' REMOVAL_MESSAGE inactive_participants w')))
              = filter (\<lambda>p. p \<in> set (currentParticipants g')) inactive_participants)"
proof (intro conjI impI)
  let ?r = "addParticipantsToGroup cl INVITE_MESSAGE participants_to_add w"
  assume h: "getChats cl w = (Inr chats, w1) \<and> find_group TARGET_GROUP_ID_add chats = Some g \<and>
      is_admin (info_wid cl) g \<and>
      filter (\<lambda>p. p \<notin> set (currentParticipants g)) participants_to_add \<noteq> []"
  then show c: "fst ?r = Completed"
    by (elim conjE) (rule add_run_ready)
  then have r: "?r = (Completed, snd ?r)" by (simp add: prod_eq_iff)
  from h show "persisted_results (snd ?r) = Some (results (snd ?r))"
    using add_run_numbers(2) [OF r] by blast
  from h show "map number (results (snd ?r))
      = filter (\<lambda>p. p \<notin> set (currentParticipants g)) participants_to_add"
    using add_run_numbers(1) [OF r] by blast
next
  let ?r = "removeInactiveParticipants cl' REMOVAL_MESSAGE inactive_participants w'"
  assume h: "getChats cl' w' = (Inr chats', w1') \<and> find_group TARGET_GROUP_ID_remove chats' = Some g' \<and>
      is_admin (info_wid cl') g' \<and>
      filter (\<lambda>p. p \<in> set (currentParticipants g')) inactive_participants \<noteq> []"
  then show c: "fst ?r = Completed"
    by (elim conjE) (rule remove_run_ready)
  then have r: "?r = (Completed, snd ?r)" by (simp add: prod_eq_iff)
  from h show "persisted_results (snd ?r) = Some (results (snd ?r))"
    using remove_run_numbers(2) [OF r] by blast
  from h show "map number (results (snd ?r))
      = filter (\<lambda>p. p \<in> set (currentParticipants g')) inactive_participants"
    using remove_run_numbers(1) [OF r] by blast
qed

text \<open>
  The claim as first stated fails when the filter leaves nothing: the admin check passes
  and no file is written.
\<close>

theorem C8_counterexample:
  "is_admin (info_wid demo_client) (sim_group w_one_member)
   \<and> fst (addParticipantsToGroup demo_client ''hello'' [''+1111''] w_one_member) = NothingToDo
   \<and> written (snd (addParticipantsToGroup demo_client ''hello'' [''+1111''] w_one_member)) = None"
  by (simp add: sim_defs w_one_member_def run_defs)

text \<open>C8 on two sessions in which every target fails.\<close>

theorem C8_witness:
  "fst (addParticipantsToGroup demo_client ''hello'' [''+1111'', ''+2222''] w_all_rejected) = Completed
   \<and> persisted_results (snd (addParticipantsToGroup demo_client ''hello'' [''+1111'', ''+2222'']
        w_all_rejected))
      = Some (results (snd (addParticipantsToGroup demo_client ''hello'' [''+1111'', ''+2222'']
          w_all_rejected)))
   \<and> map number (results (snd (addParticipantsToGroup demo_client ''hello'' [''+1111'', ''+2222'']
        w_all_rejected))) = [''+1111'', ''+2222'']
   \<and> map status (results (snd (addParticipantsToGroup demo_client ''hello'' [''+1111'', ''+2222'']
        w_all_rejected))) = [''failed'', ''failed'']
   \<and> fst (removeInactiveParticipants demo_client ''bye'' [''+1111'', ''+2222''] w_removal_rejected)
      = Completed
   \<and> persisted_results (snd (removeInactiveParticipants demo_client ''bye'' [''+1111'', ''+2222'']
        w_removal_rejected))
      = Some (results (snd (removeInactiveParticipants demo_client ''bye'' [''+1111'', ''+2222'']
          w_removal_rejected)))
   \<and> map number (results (snd (removeInactiveParticipants demo_client ''bye'' [''+1111'', ''+2222'']
        w_removal_rejected))) = [''+1111'', ''+2222'']
   \<and> map status (results (snd (removeInactiveParticipants demo_client ''bye'' [''+1111'', ''+2222'']
        w_removal_rejected))) = [''failed'', ''failed'']"
proof -
  note sim = sim_defs w_all_rejected_def w_removal_rejected_def w_two_members_def
  have ga: "find_group TARGET_GROUP_ID_add [sim_group w_all_rejected] = Some (sim_group w_all_rejected)"
    and gr: "find_group TARGET_GROUP_ID_remove [sim_group w_removal_rejected]
               = Some (sim_group w_removal_rejected)"
    by (simp_all add: find_group_def sim)
  have aa: "is_admin (info_wid demo_client) (sim_group w_all_rejected)"
    and ar: "is_admin (info_wid demo_client) (sim_group w_removal_rejected)"
    by (simp_all add: is_admin_def sim)
  have fa: "filter (\<lambda>p. p \<notin> set (currentParticipants (sim_group w_all_rejected))) [''+1111'', ''+2222'']
              = [''+1111'', ''+2222'']"
    and fr: "filter (\<lambda>p. p \<in> set (currentParticipants (sim_group w_removal_rejected)))
               [''+1111'', ''+2222''] = [''+1111'', ''+2222'']"
    by (simp_all add: currentParticipants_def sim)
  have st: "map status (results (snd (addParticipantsToGroup demo_client ''hello'' [''+1111'', ''+2222'']
        w_all_rejected))) = [''failed'', ''failed'']"
    "map status (results (snd (removeInactiveParticipants demo_client ''bye'' [''+1111'', ''+2222'']
        w_removal_rejected))) = [''failed'', ''failed'']"
    by code_simp+
  from C8_summary_persisted
    [where cl = demo_client and w = w_all_rejected and chats = "[sim_group w_all_rejected]"
       and ?w1.0 = w_all_rejected and g = "sim_group w_all_rejected"
       and participants_to_add = "[''+1111'', ''+2222'']" and INVITE_MESSAGE = "''hello''"
       and cl' = demo_client and w' = w_removal_rejected
       and chats' = "[sim_group w_removal_rejected]" and w1' = w_removal_rejected
       and g' = "sim_group w_removal_rejected" and inactive_participants = "[''+1111'', ''+2222'']"
       and REMOVAL_MESSAGE = "''bye''"]
    sim_getChats ga gr aa ar fa fr st
  show ?thesis by simp
qed

text \<open>
  C9 (as amended). The scripts have no cancellation check in the loop; the only reaction to
  an interrupt is the \<^verbatim>\<open>SIGINT\<close> handler. When the signal arrives while the loop is
  suspended between two targets (and \<^verbatim>\<open>client.destroy()\<close> resolves before the loop resumes),
  the client is destroyed and the process exits with code 0: the loop stops, the targets
  not yet reached get no entry (none is marked failed), but no summary is computed or
  written, so the entries recorded so far are lost with the process.
\<close>

theorem C9_sigint_exits_without_summary:
  "(getChats cl w = (Inr chats, w1) \<and> find_group TARGET_GROUP_ID_add chats = Some g \<and>
      is_admin (info_wid cl) g \<and>
      k < length (filter (\<lambda>p. p \<notin> set (currentParticipants g)) participants_to_add)
      \<longrightarrow> written (add_interrupted cl INVITE_MESSAGE participants_to_add k w) = None
          \<and> map number (results (add_interrupted cl INVITE_MESSAGE participants_to_add k w))
              = take k (filter (\<lambda>p. p \<notin> set (currentParticipants g)) participants_to_add)
          \<and> suffix [Destroy, Exit 0]
              (events (add_interrupted cl INVITE_MESSAGE participants_to_add k w)))
   \<and> (getChats cl' w' = (Inr chats', w1') \<and> find_group TARGET_GROUP_ID_remove chats' = Some g' \<and>
      is_admin (info_wid cl') g' \<and>
      k' < length (filter (\<lambda>p. p \<in> set (currentParticipants g')) inactive_participants)
      \<longrightarrow> written (remove_interrupted cl' REMOVAL_MESSAGE inactive_participants k' w') = None
          \<and> map number (results (remove_interrupted cl' REMOVAL_MESSAGE inactive_participants k' w'))
              = take k' (filter (\<lambda>p. p \<in> set (currentParticipants g')) inactive_participants)
          \<and> suffix [Destroy, Exit 0]
              (events (remove_interrupted cl' REMOVAL_MESSAGE inactive_participants k' w')))"
proof (intro conjI impI)
  let ?toAdd = "filter (\<lambda>p. p \<notin> set (currentParticipants g)) participants_to_add"
  let ?x = "add_interrupted cl INVITE_MESSAGE participants_to_add k w"
  assume h: "getChats cl w = (Inr chats, w1) \<and> find_group TARGET_GROUP_ID_add chats = Some g \<and>
      is_admin (info_wid cl) g \<and> k < length ?toAdd"
  then have ne: "?toAdd \<noteq> []" by auto
  obtain code s1 where prep: "add_prepare cl participants_to_add (init_state w) =
           (Inr (g, ?toAdd, filter (\<lambda>p. p \<in> set (currentParticipants g)) participants_to_add, code), s1)"
    and s1: "results s1 = []" "written s1 = None"
    using h add_prepare_ready [of cl w chats w1 g participants_to_add] ne by blast
  from prep h have x: "?x = sigint_handler cl
      (add_loop cl (chat_id g) code INVITE_MESSAGE (length ?toAdd) 0 (take k ?toAdd) s1)"
    by (simp add: add_interrupted_def)
  show "written ?x = None" by (simp add: x add_loop_written s1)
  show "map number (results ?x) = take k ?toAdd" by (simp add: x add_loop_numbers s1)
  show "suffix [Destroy, Exit 0] (events ?x)" by (simp add: x suffix_def)
next
  let ?toRemove = "filter (\<lambda>p. p \<in> set (currentParticipants g')) inactive_participants"
  let ?x = "remove_interrupted cl' REMOVAL_MESSAGE inactive_participants k' w'"
  assume h: "getChats cl' w' = (Inr chats', w1') \<and> find_group TARGET_GROUP_ID_remove chats' = Some g' \<and>
      is_admin (info_wid cl') g' \<and> k' < length ?toRemove"
  then have ne: "?toRemove \<noteq> []" by auto
  obtain s1 where prep: "remove_prepare cl' inactive_participants (init_state w') =
           (Inr (g', ?toRemove, filter (\<lambda>p. p \<notin> set (currentParticipants g')) inactive_participants), s1)"
    and s1: "results s1 = []" "written s1 = None"
    using h remove_prepare_ready [of cl' w' chats' w1' g' inactive_participants] ne by blast
  from prep h have x: "?x = sigint_handler cl'
      (remove_loop cl' g' REMOVAL_MESSAGE (length ?toRemove) 0 (take k' ?toRemove) s1)"
    by (simp add: remove_interrupted_def)
  show "written ?x = None" by (simp add: x remove_loop_written s1)
  show "map number (results ?x) = take k' ?toRemove" by (simp add: x remove_loop_numbers s1)
  show "suffix [Destroy, Exit 0] (events ?x)" by (simp add: x suffix_def)
qed

text \<open>
  The claim as first stated fails: interrupted after the first of two targets, the run has
  one entry in memory, ends with the exit of the process and has written no file.
\<close>

theorem C9_counterexample:
  "map number (results (add_interrupted demo_client ''hello'' [''+1111'', ''+2222''] 1 w_empty_group))
     = [''+1111'']
   \<and> map status (results (add_interrupted demo_client ''hello'' [''+1111'', ''+2222''] 1 w_empty_group))
     = [''added'']
   \<and> written (add_interrupted demo_client ''hello'' [''+1111'', ''+2222''] 1 w_empty_group) = None
   \<and> events (add_interrupted demo_client ''hello'' [''+1111'', ''+2222''] 1 w_empty_group)
     = [GetChats, GetInviteCode TARGET_GROUP_ID_add,
        GetChatById TARGET_GROUP_ID_add, AddParticipants TARGET_GROUP_ID_add [''1111@c.us''],
        Delay VERIFICATION, GetChatById TARGET_GROUP_ID_add, Delay BETWEEN_ADDS,
        Destroy, Exit 0]"
  by code_simp

text \<open>C9 on an add run and a removal run, each interrupted after its first target.\<close>

theorem C9_witness:
  "written (add_interrupted demo_client ''hello'' [''+1111'', ''+2222''] 1 w_empty_group) = None
   \<and> map number (results (add_interrupted demo_client ''hello'' [''+1111'', ''+2222''] 1 w_empty_group))
       = [''+1111'']
   \<and> suffix [Destroy, Exit 0]
       (events (add_interrupted demo_client ''hello'' [''+1111'', ''+2222''] 1 w_empty_group))
   \<and> written (remove_interrupted demo_client ''bye'' [''+1111'', ''+2222''] 1 w_two_members) = None
   \<and> map number (results (remove_interrupted demo_client ''bye'' [''+1111'', ''+2222''] 1 w_two_members))
       = [''+1111'']
   \<and> suffix [Destroy, Exit 0]
       (events (remove_interrupted demo_client ''bye'' [''+1111'', ''+2222''] 1 w_two_members))"
proof -
  note sim = sim_defs w_empty_group_def w_two_members_def
  have ga: "find_group TARGET_GROUP_ID_add [sim_group w_empty_group] = Some (sim_group w_empty_group)"
    and gr: "find_group TARGET_GROUP_ID_remove [sim_group w_two_members] = Some (sim_group w_two_members)"
    by (simp_all add: find_group_def sim)
  have aa: "is_admin (info_wid demo_client) (sim_group w_empty_group)"
    and ar: "is_admin (info_wid demo_client) (sim_group w_two_members)"
    by (simp_all add: is_admin_def sim)
  have fa: "filter (\<lambda>p. p \<notin> set (currentParticipants (sim_group w_empty_group))) [''+1111'', ''+2222'']
              = [''+1111'', ''+2222'']"
    and fr: "filter (\<lambda>p. p \<in> set (currentParticipants (sim_group w_two_members)))
               [''+1111'', ''+2222''] = [''+1111'', ''+2222'']"
    by (simp_all add: currentParticipants_def sim)
  from C9_sigint_exits_without_summary
    [where cl = demo_client and w = w_empty_group and chats = "[sim_group w_empty_group]"
       and ?w1.0 = w_empty_group and g = "sim_group w_empty_group"
       and participants_to_add = "[''+1111'', ''+2222'']" and INVITE_MESSAGE = "''hello''" and k = 1
       and cl' = demo_client and w' = w_two_members
       and chats' = "[sim_group w_two_members]" and w1' = w_two_members
       and g' = "sim_group w_two_members" and inactive_participants = "[''+1111'', ''+2222'']"
       and REMOVAL_MESSAGE = "''bye''" and k' = 1]
    sim_getChats ga gr aa ar fa fr
  show ?thesis by simp
qed

text \<open>
  C10 (as amended). The filter before the loop splits the input exactly: every occurrence
  of an input number is in exactly one of the two lists, and both lists keep the order of
  the input. Whenever the run reaches its end, the file holds one entry per number of the
  list to process together with the complement list (\<^verbatim>\<open>alreadyInGroup\<close>, \<^verbatim>\<open>notInGroup\<close>), so
  every supplied number is in the file.
\<close>

theorem C10_partition_persisted:
  "(addParticipantsToGroup cl INVITE_MESSAGE participants_to_add w = (Completed, s) \<and>
      getChats cl w = (Inr chats, w1) \<and> find_group TARGET_GROUP_ID_add chats = Some g
      \<longrightarrow> persisted_results s = Some (results s)
          \<and> map number (results s)
              = filter (\<lambda>p. p \<notin> set (currentParticipants g)) participants_to_add
          \<and> persisted_complement s
              = Some (filter (\<lambda>p. p \<in> set (currentParticipants g)) participants_to_add))
   \<and> (removeInactiveParticipants cl' REMOVAL_MESSAGE inactive_participants w' = (Completed, s') \<and>
      getChats cl' w' = (Inr chats', w1') \<and> find_group TARGET_GROUP_ID_remove chats' = Some g'
      \<longrightarrow> persisted_results s' = Some (results s')
          \<and> map number (results s')
              = filter (\<lambda>p. p \<in> set (currentParticipants g')) inactive_participants
          \<and> persisted_complement s'
              = Some (filter (\<lambda>p. p \<notin> set (currentParticipants g')) inactive_participants))
   \<and> mset (filter (\<lambda>p. p \<notin> set (currentParticipants g'')) numbers)
       + mset (filter (\<lambda>p. p \<in> set (currentParticipants g'')) numbers) = mset numbers
   \<and> set (filter (\<lambda>p. p \<notin> set (currentParticipants g'')) numbers)
       \<inter> set (filter (\<lambda>p. p \<in> set (currentParticipants g'')) numbers) = {}
   \<and> subseq (filter (\<lambda>p. p \<notin> set (currentParticipants g'')) numbers) numbers
   \<and> subseq (filter (\<lambda>p. p \<in> set (currentParticipants g'')) numbers) numbers"
proof (intro conjI impI)
  assume "addParticipantsToGroup cl INVITE_MESSAGE participants_to_add w = (Completed, s) \<and>
      getChats cl w = (Inr chats, w1) \<and> find_group TARGET_GROUP_ID_add chats = Some g"
  then have a: "addParticipantsToGroup cl INVITE_MESSAGE participants_to_add w = (Completed, s)"
    and b: "getChats cl w = (Inr chats, w1)" and c: "find_group TARGET_GROUP_ID_add chats = Some g"
    by simp_all
  show "persisted_results s = Some (results s)"
    by (rule add_run_numbers(2) [OF a b c])
  show "map number (results s) = filter (\<lambda>p. p \<notin> set (currentParticipants g)) participants_to_add"
    by (rule add_run_numbers(1) [OF a b c])
  show "persisted_complement s
      = Some (filter (\<lambda>p. p \<in> set (currentParticipants g)) participants_to_add)"
    by (rule add_run_numbers(3) [OF a b c])
next
  assume "removeInactiveParticipants cl' REMOVAL_MESSAGE inactive_participants w' = (Completed, s') \<and>
      getChats cl' w' = (Inr chats', w1') \<and> find_group TARGET_GROUP_ID_remove chats' = Some g'"
  then have a: "removeInactiveParticipants cl' REMOVAL_MESSAGE inactive_participants w' = (Completed, s')"
    and b: "getChats cl' w' = (Inr chats', w1')"
    and c: "find_group TARGET_GROUP_ID_remove chats' = Some g'"
    by simp_all
  show "persisted_results s' = Some (results s')"
    by (rule remove_run_numbers(2) [OF a b c])
  show "map number (results s') = filter (\<lambda>p. p \<in> set (currentParticipants g')) inactive_participants"
    by (rule remove_run_numbers(1) [OF a b c])
  show "persisted_complement s'
      = Some (filter (\<lambda>p. p \<notin> set (currentParticipants g')) inactive_participants)"
    by (rule remove_run_numbers(3) [OF a b c])
next
  show "mset (filter (\<lambda>p. p \<notin> set (currentParticipants g'')) numbers)
       + mset (filter (\<lambda>p. p \<in> set (currentParticipants g'')) numbers) = mset numbers"
    by (induction numbers) simp_all
  show "set (filter (\<lambda>p. p \<notin> set (currentParticipants g'')) numbers)
       \<inter> set (filter (\<lambda>p. p \<in> set (currentParticipants g'')) numbers) = {}"
    by auto
qed simp_all

text \<open>
  The claim as first stated fails when the list to process is empty: the script returns
  before writing, and the complement (here the whole input) is in no file.
\<close>

theorem C10_counterexample:
  "fst (addParticipantsToGroup demo_client ''hello'' [''+1111''] w_one_member) = NothingToDo
   \<and> persisted_complement (snd (addParticipantsToGroup demo_client ''hello'' [''+1111''] w_one_member))
       = None"
  by code_simp

text \<open>C10 on an add run and a removal run that both reach their end.\<close>

theorem C10_witness:
  "persisted_results (snd (addParticipantsToGroup demo_client ''hello'' [''+1111'', ''+2222'']
      w_one_member))
     = Some (results (snd (addParticipantsToGroup demo_client ''hello'' [''+1111'', ''+2222'']
         w_one_member)))
   \<and> map number (results (snd (addParticipantsToGroup demo_client ''hello'' [''+1111'', ''+2222'']
      w_one_member))) = [''+2222'']
   \<and> persisted_complement (snd (addParticipantsToGroup demo_client ''hello'' [''+1111'', ''+2222'']
      w_one_member)) = Some [''+1111'']
   \<and> persisted_results (snd (removeInactiveParticipants demo_client ''bye'' [''+1111'', ''+3333'']
      w_two_members))
     = Some (results (snd (removeInactiveParticipants demo_client ''bye'' [''+1111'', ''+3333'']
         w_two_members)))
   \<and> map number (results (snd (removeInactiveParticipants demo_client ''bye'' [''+1111'', ''+3333'']
      w_two_members))) = [''+1111'']
   \<and> persisted_complement (snd (removeInactiveParticipants demo_client ''bye'' [''+1111'', ''+3333'']
      w_two_members)) = Some [''+3333'']"
proof -
  note sim = sim_defs w_one_member_def w_two_members_def
  let ?ra = "addParticipantsToGroup demo_client ''hello'' [''+1111'', ''+2222''] w_one_member"
  let ?rr = "removeInactiveParticipants demo_client ''bye'' [''+1111'', ''+3333''] w_two_members"
  have "fst ?ra = Completed" and "fst ?rr = Completed"
    by code_simp+
  then have a1: "?ra = (Completed, snd ?ra)" and r1: "?rr = (Completed, snd ?rr)"
    by (simp_all add: prod_eq_iff)
  have a3: "find_group TARGET_GROUP_ID_add [sim_group w_one_member] = Some (sim_group w_one_member)"
    and r3: "find_group TARGET_GROUP_ID_remove [sim_group w_two_members] = Some (sim_group w_two_members)"
    by (simp_all add: find_group_def sim)
  have ca: "filter (\<lambda>p. p \<notin> set (currentParticipants (sim_group w_one_member))) [''+1111'', ''+2222'']
            = [''+2222'']"
    "filter (\<lambda>p. p \<in> set (currentParticipants (sim_group w_one_member))) [''+1111'', ''+2222'']
            = [''+1111'']"
    and cr: "filter (\<lambda>p. p \<in> set (currentParticipants (sim_group w_two_members))) [''+1111'', ''+3333'']
            = [''+1111'']"
    "filter (\<lambda>p. p \<notin> set (currentParticipants (sim_group w_two_members))) [''+1111'', ''+3333'']
            = [''+3333'']"
    by (simp_all add: currentParticipants_def sim)
  from C10_partition_persisted
    [where cl = demo_client and INVITE_MESSAGE = "''hello''"
       and participants_to_add = "[''+1111'', ''+2222'']" and w = w_one_member and s = "snd ?ra"
       and chats = "[sim_group w_one_member]" and ?w1.0 = w_one_member and g = "sim_group w_one_member"
       and cl' = demo_client and REMOVAL_MESSAGE = "''bye''"
       and inactive_participants = "[''+1111'', ''+3333'']" and w' = w_two_members and s' = "snd ?rr"
       and chats' = "[sim_group w_two_members]" and w1' = w_two_members
       and g' = "sim_group w_two_members"
       and g'' = "sim_group w_one_member" and numbers = "[''+1111'', ''+2222'']"]
    a1 r1 sim_getChats a3 r3 ca cr
  show ?thesis by simp
qed

end
